theory Spec2Isabelle
  imports Main "HOL-Library.Word" "HOL-Library.Signed_Division" "HOL-Library.Sublist"
begin

section \<open>Machine integers and durations\<close>

text \<open>
  Go's \<open>int64\<close> and \<open>time.Duration\<close> (an \<open>int64\<close> count of nanoseconds) are 64-bit
  words read in two's complement: \<open>+\<close> and \<open>-\<close> wrap, comparisons go through
  \<open>sint\<close>, and \<open>/\<close> truncates towards zero.
\<close>

type_synonym int64 = "64 word"
type_synonym duration = "64 word"

definition second :: duration where
  "second = 1000000000"

definition go_div :: "int64 \<Rightarrow> int64 \<Rightarrow> int64" where
  "go_div a b = word_of_int (sint a sdiv sint b)"

section \<open>Command statistics (discord/commands.go)\<close>

record CommandStats =
  totalCommands :: int64
  activeCommands :: int64
  averageTime :: duration

text \<open>The zero value \<open>&CommandStats{}\<close> built by \<open>NewCommandHandler\<close>.\<close>

definition newCommandStats :: CommandStats where
  "newCommandStats = \<lparr>totalCommands = 0, activeCommands = 0, averageTime = 0\<rparr>"

text \<open>
  \<open>updateStats(delta, duration)\<close>: the counters first, then the running average.
  The mutex only serialises the calls, so each call is one atomic state update.
\<close>

definition updateStats :: "int64 \<Rightarrow> duration \<Rightarrow> CommandStats \<Rightarrow> CommandStats" where
  "updateStats delta d st =
     (let st1 = (if 0 < sint delta
                 then st\<lparr>totalCommands := totalCommands st + 1,
                         activeCommands := activeCommands st + 1\<rparr>
                 else st\<lparr>activeCommands := activeCommands st - 1\<rparr>)
      in if 0 < sint d
         then st1\<lparr>averageTime := go_div (averageTime st1 + d) 2\<rparr>
         else st1)"

text \<open>\<open>GetStats\<close> reads the three fields under the lock.\<close>

definition GetStats :: "CommandStats \<Rightarrow> int64 \<times> int64 \<times> duration" where
  "GetStats st = (totalCommands st, activeCommands st, averageTime st)"

text \<open>The two call sites of the handlers: \<open>updateStats(1, 0)\<close> and the deferred
  \<open>updateStats(-1, time.Since(start))\<close>.\<close>

definition statsStart :: "CommandStats \<Rightarrow> CommandStats" where
  "statsStart = updateStats 1 0"

definition statsEnd :: "duration \<Rightarrow> CommandStats \<Rightarrow> CommandStats" where
  "statsEnd d = updateStats (- 1) d"

section \<open>Strings and formatting\<close>

text \<open>
  A Go string is a sequence of bytes. The glyphs outside ASCII that the messages use
  are written as their UTF-8 bytes.
\<close>

definition nl :: string where
  "nl = [CHR 0x0A]"

definition glyph_cross :: string where
  "glyph_cross = [CHR 0xE2, CHR 0x9D, CHR 0x8C]"

definition glyph_check :: string where
  "glyph_check = [CHR 0xE2, CHR 0x9C, CHR 0x85]"

definition glyph_clipboard :: string where
  "glyph_clipboard = [CHR 0xF0, CHR 0x9F, CHR 0x93, CHR 0x8B]"

definition glyph_mailbox :: string where
  "glyph_mailbox = [CHR 0xF0, CHR 0x9F, CHR 0x93, CHR 0xAD]"

definition glyph_bust :: string where
  "glyph_bust = [CHR 0xF0, CHR 0x9F, CHR 0x91, CHR 0xA4]"

definition glyph_chart :: string where
  "glyph_chart = [CHR 0xF0, CHR 0x9F, CHR 0x93, CHR 0x8A]"

definition glyph_new :: string where
  "glyph_new = [CHR 0xF0, CHR 0x9F, CHR 0x86, CHR 0x95]"

definition glyph_trophy :: string where
  "glyph_trophy = [CHR 0xF0, CHR 0x9F, CHR 0x8F, CHR 0x86]"

definition glyph_bullet :: string where
  "glyph_bullet = [CHR 0xE2, CHR 0x80, CHR 0xA2]"

definition glyph_bulb :: string where
  "glyph_bulb = [CHR 0xF0, CHR 0x9F, CHR 0x92, CHR 0xA1]"

definition glyph_cycle :: string where
  "glyph_cycle = [CHR 0xF0, CHR 0x9F, CHR 0x94, CHR 0x84]"

text \<open>The verb \<open>%d\<close> of \<open>fmt.Sprintf\<close>: decimal digits, with a minus sign below zero.\<close>

fun digits :: "nat \<Rightarrow> string" where
  "digits n = (if n < 10 then [char_of (48 + n)]
               else digits (n div 10) @ [char_of (48 + n mod 10)])"

declare digits.simps [simp del]

definition fmt_d :: "int \<Rightarrow> string" where
  "fmt_d i = (if i < 0 then CHR ''-'' # digits (nat (- i)) else digits (nat i))"

text \<open>
  \<open>strings.ToUpper\<close> and \<open>strings.ToLower\<close> on the ASCII letters; every other byte is
  kept, which is Go's result on ASCII text such as the server codes.
\<close>

definition upper_byte :: "char \<Rightarrow> char" where
  "upper_byte c = (let n = (of_char c :: nat)
                   in if 97 \<le> n \<and> n \<le> 122 then char_of (n - 32) else c)"

definition lower_byte :: "char \<Rightarrow> char" where
  "lower_byte c = (let n = (of_char c :: nat)
                   in if 65 \<le> n \<and> n \<le> 90 then char_of (n + 32) else c)"

definition ToUpper :: "string \<Rightarrow> string" where
  "ToUpper s = map upper_byte s"

definition ToLower :: "string \<Rightarrow> string" where
  "ToLower s = map lower_byte s"

text \<open>\<open>strings.Contains(s, substr)\<close>: \<open>substr\<close> occurs in \<open>s\<close> as a contiguous block.\<close>

definition Contains :: "string \<Rightarrow> string \<Rightarrow> bool" where
  "Contains s substr = sublist substr s"

text \<open>The verb \<open>%v\<close> on a \<open>[]string\<close>: the elements between brackets, separated by spaces.\<close>

fun join_sp :: "string list \<Rightarrow> string" where
  "join_sp [] = []"
| "join_sp [x] = x"
| "join_sp (x # y # ys) = x @ '' '' @ join_sp (y # ys)"

definition fmt_v_strings :: "string list \<Rightarrow> string" where
  "fmt_v_strings xs = ''['' @ join_sp xs @ '']''"

section \<open>Players (models)\<close>

text \<open>
  \<open>models.Player\<close>. An \<open>ObjectID\<close> is kept abstract as a number, \<open>0\<close> being the zero
  identifier; the Go \<open>int\<close> fields are never computed with, only copied and printed;
  a \<open>time.Time\<close> is a count of nanoseconds on the clock of the model.
\<close>

type_synonym ObjectID = nat

record Player =
  ID :: ObjectID
  PUUID :: string
  GameName :: string
  TagLine :: string
  Server :: string
  SummonerID :: string
  SummonerLevel :: int
  ProfileIconID :: int
  Tier :: string
  Rank :: string
  LeaguePoints :: int
  Wins :: int
  Losses :: int
  CreatedAt :: int
  UpdatedAt :: int

section \<open>Messages of the command handler (discord/commands.go)\<close>

text \<open>The content that \<open>handleAddPlayerErrors\<close> passes to \<open>sendFollowUp\<close>.\<close>

definition handleAddPlayerErrors :: "string \<Rightarrow> string \<Rightarrow> string \<Rightarrow> string \<Rightarrow> string" where
  "handleAddPlayerErrors err pseudo tagline server =
     (if Contains err ''already being tracked''
      then glyph_cross @ '' Player **'' @ pseudo @ ''#'' @ tagline @ ''** ('' @ ToUpper server
             @ '') is already being tracked!''
      else if Contains err ''not found''
      then glyph_cross @ '' Player **'' @ pseudo @ ''#'' @ tagline @ ''** not found on server **''
             @ ToUpper server @ ''**'' @ nl @ nl @ glyph_bulb @ '' **Tips:**'' @ nl
             @ glyph_bullet @ '' Check the spelling of the name and tagline'' @ nl
             @ glyph_bullet @ '' Make sure the server is correct'' @ nl
             @ glyph_bullet @ '' The player might not exist or have never played ranked''
      else glyph_cross @ '' Failed to add player **'' @ pseudo @ ''#'' @ tagline @ ''**'' @ nl @ nl
             @ ''**Error:** '' @ err)"

text \<open>The content that \<open>sendAppPlayerSuccess\<close> passes to \<open>sendFollowUp\<close>.\<close>

definition sendAppPlayerSuccess :: "Player \<Rightarrow> string" where
  "sendAppPlayerSuccess player =
     (let rankInfo =
            (if Tier player = ''UNRANKED'' then glyph_new @ '' **Unranked**''
             else glyph_trophy @ '' **'' @ Tier player @ '' '' @ Rank player @ ''** ''
                    @ glyph_bullet @ '' '' @ fmt_d (LeaguePoints player) @ '' LP'')
      in glyph_check @ '' Successfully added **'' @ GameName player @ ''#'' @ TagLine player
           @ ''** ('' @ ToUpper (Server player) @ '')'' @ nl
           @ glyph_chart @ '' **Level:** '' @ fmt_d (SummonerLevel player) @ nl @ rankInfo)"

text \<open>
  \<open>sendPlayersList\<close>. The header, the text written for one player, the closing line
  of a cut list, and the loop over \<open>players\<close> with its index and its builder.
\<close>

definition no_players_msg :: string where
  "no_players_msg = glyph_mailbox @ '' No players tracked yet!'' @ nl
                      @ ''Use `/add_player` to start tracking.''"

definition list_header :: "nat \<Rightarrow> string" where
  "list_header n = glyph_clipboard @ '' **Tracked Players ('' @ fmt_d (int n) @ '')**'' @ nl @ nl"

definition player_entry :: "Player \<Rightarrow> string" where
  "player_entry player =
     (let rankInfo =
            (if Tier player = ''UNRANKED'' then glyph_new @ '' Unranked''
             else glyph_trophy @ '' '' @ Tier player @ '' '' @ Rank player @ '' ''
                    @ fmt_d (LeaguePoints player) @ '' LP'')
      in glyph_bust @ '' **'' @ GameName player @ ''#'' @ TagLine player @ ''** (''
           @ ToUpper (Server player) @ '')'' @ nl
           @ ''   '' @ glyph_chart @ '' Level '' @ fmt_d (SummonerLevel player) @ '' ''
           @ glyph_bullet @ '' '' @ rankInfo @ nl @ nl)"

definition more_players_line :: "nat \<Rightarrow> string" where
  "more_players_line n = ''... and '' @ fmt_d (int n - 20) @ '' more players'' @ nl"

fun players_loop :: "nat \<Rightarrow> nat \<Rightarrow> Player list \<Rightarrow> string \<Rightarrow> string" where
  "players_loop n idx [] response = response"
| "players_loop n idx (player # rest) response =
     (if 20 \<le> idx then response @ more_players_line n
      else players_loop n (idx + 1) rest (response @ player_entry player))"

definition sendPlayersList :: "Player list \<Rightarrow> string" where
  "sendPlayersList players =
     (if length players = 0 then no_players_msg
      else players_loop (length players) 0 players (list_header (length players)))"

section \<open>The players collection (repositories/player.go)\<close>

text \<open>
  The MongoDB driver is an external library. The collection is the list of its
  documents, with the unique index on (gameName, tagLine, server) that
  \<open>NewPlayerRepository\<close> creates; \<open>read_fault\<close> and \<open>write_fault\<close> are the failures
  of the store itself (network, decoding), as the error text the driver reports.
\<close>

datatype mongo_error = ErrNoDocuments | DriverError string

record collection =
  docs :: "Player list"
  next_oid :: ObjectID
  read_fault :: "string option"
  write_fault :: "Player \<Rightarrow> string option"

definition same_riot_id :: "Player \<Rightarrow> Player \<Rightarrow> bool" where
  "same_riot_id p q \<longleftrightarrow> GameName p = GameName q \<and> TagLine p = TagLine q \<and> Server p = Server q"

definition duplicate_key :: string where
  "duplicate_key = ''E11000 duplicate key error''"

text \<open>\<open>collection.FindOne(ctx, filter).Decode(&player)\<close>.\<close>

definition FindOne :: "collection \<Rightarrow> (Player \<Rightarrow> bool) \<Rightarrow> mongo_error + Player" where
  "FindOne c flt =
     (case read_fault c of
        Some e \<Rightarrow> Inl (DriverError e)
      | None \<Rightarrow> (case find flt (docs c) of
                   None \<Rightarrow> Inl ErrNoDocuments
                 | Some p \<Rightarrow> Inr p))"

text \<open>\<open>collection.Find(ctx, bson.M{})\<close> with the cursor read to its end.\<close>

definition Find_all :: "collection \<Rightarrow> string + Player list" where
  "Find_all c = (case read_fault c of Some e \<Rightarrow> Inl e | None \<Rightarrow> Inr (docs c))"

text \<open>\<open>collection.InsertOne\<close>: a document with the zero \<open>_id\<close> gets a fresh one.\<close>

definition InsertOne :: "collection \<Rightarrow> Player \<Rightarrow> string + collection \<times> ObjectID" where
  "InsertOne c p =
     (case write_fault c p of
        Some e \<Rightarrow> Inl e
      | None \<Rightarrow>
          (let oid = (if ID p = 0 then next_oid c else ID p)
           in if list_ex (\<lambda>q. same_riot_id q p \<or> ID q = oid) (docs c)
              then Inl duplicate_key
              else Inr (c\<lparr>docs := docs c @ [p\<lparr>ID := oid\<rparr>],
                          next_oid := (if ID p = 0 then Suc (next_oid c) else next_oid c)\<rparr>, oid)))"

fun replace_first :: "(Player \<Rightarrow> bool) \<Rightarrow> Player \<Rightarrow> Player list \<Rightarrow> Player list" where
  "replace_first flt p [] = []"
| "replace_first flt p (q # qs) = (if flt q then p # qs else q # replace_first flt p qs)"

text \<open>\<open>collection.ReplaceOne\<close>: no matching document is not an error.\<close>

definition ReplaceOne :: "collection \<Rightarrow> (Player \<Rightarrow> bool) \<Rightarrow> Player \<Rightarrow> string + collection" where
  "ReplaceOne c flt p =
     (case write_fault c p of
        Some e \<Rightarrow> Inl e
      | None \<Rightarrow>
          (case find flt (docs c) of
             None \<Rightarrow> Inr c
           | Some q \<Rightarrow>
               if list_ex (\<lambda>r. ID r \<noteq> ID q \<and> same_riot_id r p) (docs c)
               then Inl duplicate_key
               else Inr (c\<lparr>docs := replace_first flt p (docs c)\<rparr>)))"

text \<open>
  \<open>PlayerRepository.FindByRiotID\<close> returns the Go pair (player, error): \<open>None\<close> is
  \<open>nil\<close>, and an error is its text.
\<close>

definition FindByRiotID ::
  "collection \<Rightarrow> string \<Rightarrow> string \<Rightarrow> string \<Rightarrow> Player option \<times> string option" where
  "FindByRiotID c gameName tagLine server =
     (case FindOne c (\<lambda>p. GameName p = gameName \<and> TagLine p = tagLine \<and> Server p = server) of
        Inl ErrNoDocuments \<Rightarrow> (None, None)
      | Inl (DriverError e) \<Rightarrow> (None, Some (''failed to find player: '' @ e))
      | Inr player \<Rightarrow> (Some player, None))"

text \<open>
  The other repository functions return an error text (\<open>Inl\<close>) or their result.
  \<open>now\<close> is the reading of \<open>time.Now()\<close>.
\<close>

definition Create :: "collection \<Rightarrow> int \<Rightarrow> Player \<Rightarrow> string + collection \<times> Player" where
  "Create c now player =
     (let player1 = player\<lparr>CreatedAt := now, UpdatedAt := now\<rparr>
      in case InsertOne c player1 of
           Inl e \<Rightarrow> Inl (''failed to create player: '' @ e)
         | Inr (c', oid) \<Rightarrow> Inr (c', player1\<lparr>ID := oid\<rparr>))"

definition Update :: "collection \<Rightarrow> int \<Rightarrow> Player \<Rightarrow> string + collection \<times> Player" where
  "Update c now player =
     (let player1 = player\<lparr>UpdatedAt := now\<rparr>
      in case ReplaceOne c (\<lambda>q. ID q = ID player1) player1 of
           Inl e \<Rightarrow> Inl (''failed to update player: '' @ e)
         | Inr c' \<Rightarrow> Inr (c', player1))"

definition FindAll :: "collection \<Rightarrow> string + Player list" where
  "FindAll c = (case Find_all c of
                  Inl e \<Rightarrow> Inl (''failed to find players: '' @ e)
                | Inr players \<Rightarrow> Inr players)"

section \<open>The Riot client (services/riot.go)\<close>

record AccountDTO =
  acc_PUUID :: string
  acc_GameName :: string
  acc_TagLine :: string

record SummonerDTO =
  sum_ID :: string
  sum_AccountID :: string
  sum_PUUID :: string
  sum_Name :: string
  sum_ProfileIconID :: int
  sum_RevisionDate :: int
  sum_SummonerLevel :: int

record LeagueEntryDTO =
  le_LeagueID :: string
  le_SummonerID :: string
  le_SummonerName :: string
  le_QueueType :: string
  le_Tier :: string
  le_Rank :: string
  le_LeaguePoints :: int
  le_Wins :: int
  le_Losses :: int
  le_HotStreak :: bool
  le_Veteran :: bool
  le_FreshBlood :: bool
  le_Inactive :: bool

text \<open>
  \<open>makeAPIRequest(ctx, url, target)\<close> talks to the network: the service carries, for
  each of the three targets it decodes into, what a GET of a URL answers (an error
  text or the decoded body).
\<close>

record RiotService =
  apiKey :: string
  accountRequest :: "string \<Rightarrow> string + AccountDTO"
  summonerRequest :: "string \<Rightarrow> string + SummonerDTO"
  leagueRequest :: "string \<Rightarrow> string + LeagueEntryDTO list"

definition getAPIBaseURL :: "string \<Rightarrow> string + string" where
  "getAPIBaseURL server0 =
     (let server = ToLower server0
      in if server = ''euw1'' \<or> server = ''euw'' then Inr ''https://euw1.api.riotgames.com''
         else if server = ''eun1'' \<or> server = ''eune'' then Inr ''https://eun1.api.riotgames.com''
         else if server = ''na1'' \<or> server = ''na'' then Inr ''https://na1.api.riotgames.com''
         else if server = ''kr'' then Inr ''https://kr.api.riotgames.com''
         else if server = ''jp1'' \<or> server = ''jp'' then Inr ''https://jp1.api.riotgames.com''
         else if server = ''br1'' \<or> server = ''br'' then Inr ''https://br1.api.riotgames.com''
         else if server = ''la1'' \<or> server = ''lan'' then Inr ''https://la1.api.riotgames.com''
         else if server = ''la2'' \<or> server = ''las'' then Inr ''https://la2.api.riotgames.com''
         else if server = ''oc1'' \<or> server = ''oce'' then Inr ''https://oc1.api.riotgames.com''
         else if server = ''tr1'' \<or> server = ''tr'' then Inr ''https://tr1.api.riotgames.com''
         else if server = ''ru'' then Inr ''https://ru.api.riotgames.com''
         else Inl (''unsupported server: '' @ server))"

definition findRankedSoloEntry :: "LeagueEntryDTO list \<Rightarrow> LeagueEntryDTO option" where
  "findRankedSoloEntry entries = find (\<lambda>entry. le_QueueType entry = ''RANKED_SOLO_5x5'') entries"

definition getAccountByRiotID :: "RiotService \<Rightarrow> string \<Rightarrow> string \<Rightarrow> string + AccountDTO" where
  "getAccountByRiotID r gameName tagLine =
     accountRequest r (''https://europe.api.riotgames.com/riot/account/v1/accounts/by-riot-id/''
                         @ gameName @ ''/'' @ tagLine)"

definition getSummonerByPUUID :: "RiotService \<Rightarrow> string \<Rightarrow> string \<Rightarrow> string + SummonerDTO" where
  "getSummonerByPUUID r puuid server =
     (case getAPIBaseURL server of
        Inl e \<Rightarrow> Inl e
      | Inr baseURL \<Rightarrow> summonerRequest r (baseURL @ ''/lol/summoner/v4/summoners/by-puuid/'' @ puuid))"

definition getLeagueEntriesBySummonerID ::
  "RiotService \<Rightarrow> string \<Rightarrow> string \<Rightarrow> string + LeagueEntryDTO list" where
  "getLeagueEntriesBySummonerID r summonerID server =
     (case getAPIBaseURL server of
        Inl e \<Rightarrow> Inl e
      | Inr baseURL \<Rightarrow> leagueRequest r (baseURL @ ''/lol/league/v4/entries/by-summoner/'' @ summonerID))"

definition unranked :: "Player \<Rightarrow> Player" where
  "unranked player = player\<lparr>Tier := ''UNRANKED'', Rank := [], LeaguePoints := 0, Wins := 0, Losses := 0\<rparr>"

definition ranked :: "LeagueEntryDTO \<Rightarrow> Player \<Rightarrow> Player" where
  "ranked e player = player\<lparr>Tier := le_Tier e, Rank := le_Rank e, LeaguePoints := le_LeaguePoints e,
                            Wins := le_Wins e, Losses := le_Losses e\<rparr>"

definition GetPlayerByRiotID :: "RiotService \<Rightarrow> string \<Rightarrow> string \<Rightarrow> string \<Rightarrow> string + Player" where
  "GetPlayerByRiotID r gameName tagLine server =
     (case getAccountByRiotID r gameName tagLine of
        Inl e \<Rightarrow> Inl (''player not found: '' @ e)
      | Inr account \<Rightarrow>
          (case getSummonerByPUUID r (acc_PUUID account) server of
             Inl e \<Rightarrow> Inl (''failed to get summoner: '' @ e)
           | Inr summoner \<Rightarrow>
               (let player = \<lparr>ID = 0, PUUID = acc_PUUID account, GameName = gameName,
                               TagLine = tagLine, Server = server, SummonerID = [],
                               SummonerLevel = sum_SummonerLevel summoner, ProfileIconID = 0,
                               Tier = [], Rank = [], LeaguePoints = 0, Wins = 0, Losses = 0,
                               CreatedAt = 0, UpdatedAt = 0\<rparr>
                in case getLeagueEntriesBySummonerID r (sum_ID summoner) server of
                     Inl e \<Rightarrow> Inr (unranked player)
                   | Inr leagueEntries \<Rightarrow>
                       (case findRankedSoloEntry leagueEntries of
                          Some rankedEntry \<Rightarrow> Inr (ranked rankedEntry player)
                        | None \<Rightarrow> Inr (unranked player)))))"

definition UpdatePlayerRank :: "RiotService \<Rightarrow> Player \<Rightarrow> string + Player" where
  "UpdatePlayerRank r player =
     (case getSummonerByPUUID r (PUUID player) (Server player) of
        Inl e \<Rightarrow> Inl (''failed to get summoner: '' @ e)
      | Inr summoner \<Rightarrow>
          (case getLeagueEntriesBySummonerID r (sum_ID summoner) (Server player) of
             Inl e \<Rightarrow> Inl (''failed to get league entries: '' @ e)
           | Inr leagueEntries \<Rightarrow>
               (let player1 = (case findRankedSoloEntry leagueEntries of
                                 Some rankedEntry \<Rightarrow> ranked rankedEntry player
                               | None \<Rightarrow> unranked player)
                in Inr (player1\<lparr>SummonerLevel := sum_SummonerLevel summoner\<rparr>))))"

section \<open>The player service (services)\<close>

text \<open>
  \<open>PlayerService.AddPlayer\<close>: the store after the call and the Go pair (player, error)
  as a sum.
\<close>

definition AddPlayer ::
  "RiotService \<Rightarrow> collection \<Rightarrow> int \<Rightarrow> string \<Rightarrow> string \<Rightarrow> string
     \<Rightarrow> collection \<times> (string + Player)" where
  "AddPlayer r c now gameName tagLine server =
     (case FindByRiotID c gameName tagLine server of
        (existingPlayer, Some err) \<Rightarrow> (c, Inl (''failed to check existing player: '' @ err))
      | (Some existingPlayer, None) \<Rightarrow>
          (c, Inl (''player '' @ gameName @ ''#'' @ tagLine @ '' ('' @ server
                     @ '') is already being tracked''))
      | (None, None) \<Rightarrow>
          (case GetPlayerByRiotID r gameName tagLine server of
             Inl err \<Rightarrow> (c, Inl (''failed to fetch player from Riot API: '' @ err))
           | Inr player \<Rightarrow>
               (case Create c now player of
                  Inl err \<Rightarrow> (c, Inl (''failed to save player: '' @ err))
                | Inr (c', player') \<Rightarrow> (c', Inr player'))))"

definition GetAllPlayers :: "collection \<Rightarrow> string + Player list" where
  "GetAllPlayers c = FindAll c"

text \<open>\<open>PlayerService.UpdatePlayer\<close>: the store after the call and the error, if any.\<close>

definition UpdatePlayer :: "RiotService \<Rightarrow> collection \<Rightarrow> int \<Rightarrow> Player \<Rightarrow> collection \<times> string option" where
  "UpdatePlayer r c now player =
     (case UpdatePlayerRank r player of
        Inl err \<Rightarrow> (c, Some (''failed to update player rank: '' @ err))
      | Inr player1 \<Rightarrow>
          (case Update c now player1 of
             Inl err \<Rightarrow> (c, Some (''failed to save updated player: '' @ err))
           | Inr (c', player2) \<Rightarrow> (c', None)))"

text \<open>
  \<open>PlayerService.UpdateAllPlayers\<close> runs in a world made of the store, the clock
  (nanoseconds) and the record of what the loop did: each call of \<open>UpdatePlayer\<close>
  (by the PUUID of its player), each line printed and each \<open>time.Sleep\<close>.
  Only sleeping moves the clock of the model.
\<close>

datatype effect = CallUpdatePlayer string | Println string | Sleep duration

record world =
  store :: collection
  clock :: int
  effects :: "effect list"

fun update_loop :: "RiotService \<Rightarrow> Player list \<Rightarrow> world \<Rightarrow> string list \<Rightarrow> world \<times> string list" where
  "update_loop r [] w errors = (w, errors)"
| "update_loop r (player # rest) w errors =
     (let w1 = w\<lparr>effects := effects w @ [CallUpdatePlayer (PUUID player)]\<rparr>
      in case UpdatePlayer r (store w1) (clock w1) player of
           (c', Some err) \<Rightarrow>
             (let errorMsg = ''Failed to update player '' @ GameName player @ ''#''
                               @ TagLine player @ '': '' @ err
              in update_loop r rest
                   (w1\<lparr>store := c', effects := effects w1 @ [Println errorMsg]\<rparr>)
                   (errors @ [errorMsg]))
         | (c', None) \<Rightarrow>
             update_loop r rest
               (w1\<lparr>store := c', clock := clock w1 + sint second,
                    effects := effects w1 @ [Sleep second]\<rparr>)
               errors)"

definition UpdateAllPlayers :: "RiotService \<Rightarrow> world \<Rightarrow> world \<times> string option" where
  "UpdateAllPlayers r w =
     (case FindAll (store w) of
        Inl err \<Rightarrow> (w, Some (''failed to fetch players: '' @ err))
      | Inr players \<Rightarrow>
          (case update_loop r players w [] of
             (w', errors) \<Rightarrow>
               (w', if 0 < length errors
                    then Some (''some players failed to update: '' @ fmt_v_strings errors)
                    else None)))"

section \<open>Command handlers as event sequences (discord/commands.go)\<close>

text \<open>
  \<open>i.ApplicationCommandData()\<close>: the name of the command and the string values of
  the three options that \<open>add_player\<close> is registered with, all required.
\<close>

record interaction =
  cmd_name :: string
  opt_pseudo :: string
  opt_tagline :: string
  opt_server :: string

text \<open>
  What one execution of a handler meets outside itself: the errors of the two Discord
  calls, the moment (counted from the creation of the context) at which the service
  goroutine delivers its result and that result, \<open>None\<close> when it never does, the
  choice of \<open>select\<close> when result and deadline are ready at once, and the reading
  of \<open>time.Since(start)\<close> in the deferred statistics update.
\<close>

record exec_env =
  ack_err :: "string option"
  followup_err :: "string option"
  add_call :: "(duration \<times> (string + Player)) option"
  list_call :: "(duration \<times> (string + Player list)) option"
  tie_result :: bool
  elapsed :: duration

datatype event =
    Acquire
  | Release
  | StatsStart
  | StatsEnd duration
  | InteractionRespond
  | GoServiceCall
  | FollowUp string
  | LogPrintf string

text \<open>
  \<open>select\<close> over the result channel and \<open>ctx.Done()\<close> of a context built by
  \<open>context.WithTimeout(context.Background(), timeout)\<close>.
\<close>

datatype 'a select_result = Received 'a | CtxDone

definition select_ctx :: "duration \<Rightarrow> (duration \<times> 'a) option \<Rightarrow> bool \<Rightarrow> 'a select_result" where
  "select_ctx timeout call tie =
     (case call of
        None \<Rightarrow> CtxDone
      | Some (t, res) \<Rightarrow>
          if sint t < sint timeout then Received res
          else if sint timeout < sint t then CtxDone
          else if tie then Received res else CtxDone)"

definition add_timeout :: duration where
  "add_timeout = 30 * second"

definition list_timeout :: duration where
  "list_timeout = 10 * second"

definition sendFollowUp :: "exec_env \<Rightarrow> string \<Rightarrow> event list" where
  "sendFollowUp env content =
     FollowUp content #
       (case followup_err env of
          None \<Rightarrow> []
        | Some e \<Rightarrow> [LogPrintf (''Error sending followup message: '' @ e)])"

definition processAddPlayer :: "interaction \<Rightarrow> exec_env \<Rightarrow> event list" where
  "processAddPlayer i env =
     (let pseudo = opt_pseudo i; tagline = opt_tagline i; server = ToLower (opt_server i)
      in GoServiceCall #
           (case select_ctx add_timeout (add_call env) (tie_result env) of
              Received (Inl err) \<Rightarrow>
                sendFollowUp env (handleAddPlayerErrors err pseudo tagline server)
            | Received (Inr player) \<Rightarrow>
                LogPrintf (glyph_check @ '' AddPlayer success, sending success message'')
                  # sendFollowUp env (sendAppPlayerSuccess player)
            | CtxDone \<Rightarrow>
                sendFollowUp env (glyph_cross @ '' Request timed out. Please try again later.'')
                  @ [LogPrintf (''Add player timed out: '' @ pseudo @ ''#'' @ tagline
                                  @ '' on server '' @ server)]))"

text \<open>
  A function body followed by its deferred calls, which run last registered first
  on every return. \<open>deferred\<close> lists them in the order of their \<open>defer\<close> statements.
\<close>

definition returning :: "event list \<Rightarrow> event list \<Rightarrow> event list" where
  "returning body deferred = body @ rev deferred"

definition handleAddPlayerAsync :: "interaction \<Rightarrow> exec_env \<Rightarrow> event list" where
  "handleAddPlayerAsync i env =
     returning
       ([Acquire, StatsStart, InteractionRespond] @
          (case ack_err env of
             Some e \<Rightarrow> [LogPrintf (''Error deferring response: '' @ e)]
           | None \<Rightarrow>
               LogPrintf (glyph_cycle @ '' Starting processAddPlayer for user interaction'')
                 # processAddPlayer i env))
       [Release, StatsEnd (elapsed env)]"

definition handleListPlayersAsync :: "interaction \<Rightarrow> exec_env \<Rightarrow> event list" where
  "handleListPlayersAsync i env =
     returning
       ([Acquire, StatsStart, InteractionRespond] @
          (case ack_err env of
             Some e \<Rightarrow> [LogPrintf (''Error deferring response: '' @ e)]
           | None \<Rightarrow>
               GoServiceCall #
                 (case select_ctx list_timeout (list_call env) (tie_result env) of
                    Received (Inr players) \<Rightarrow> sendFollowUp env (sendPlayersList players)
                  | Received (Inl err) \<Rightarrow>
                      sendFollowUp env (glyph_cross @ '' Failed to fetch players from database: '' @ err)
                        @ [LogPrintf (''Error fetching players from database: '' @ err)]
                  | CtxDone \<Rightarrow> sendFollowUp env (glyph_cross @ '' Request timed out''))))
       [Release, StatsEnd (elapsed env)]"

text \<open>The follow-up messages of an event sequence, in order.\<close>

fun followups_of :: "event list \<Rightarrow> string list" where
  "followups_of [] = []"
| "followups_of (FollowUp m # es) = m # followups_of es"
| "followups_of (e # es) = followups_of es"

section \<open>The process: worker pool, statistics and goroutines\<close>

text \<open>
  \<open>CommandHandler\<close>: the buffered channel \<open>workerPool\<close> by its capacity and the number
  of elements it holds, and the statistics.
\<close>

record CommandHandler =
  workerPool_cap :: nat
  workerPool_len :: nat
  stats :: CommandStats

definition NewCommandHandler :: CommandHandler where
  "NewCommandHandler = \<lparr>workerPool_cap = 2, workerPool_len = 0, stats = newCommandStats\<rparr>"

text \<open>
  The effect of one event on the handler; \<open>None\<close> when the goroutine is blocked:
  a send on a full channel, a receive on an empty one.
\<close>

fun fire :: "event \<Rightarrow> CommandHandler \<Rightarrow> CommandHandler option" where
  "fire Acquire h =
     (if workerPool_len h < workerPool_cap h
      then Some (h\<lparr>workerPool_len := workerPool_len h + 1\<rparr>) else None)"
| "fire Release h =
     (if 0 < workerPool_len h
      then Some (h\<lparr>workerPool_len := workerPool_len h - 1\<rparr>) else None)"
| "fire StatsStart h = Some (h\<lparr>stats := statsStart (stats h)\<rparr>)"
| "fire (StatsEnd d) h = Some (h\<lparr>stats := statsEnd d (stats h)\<rparr>)"
| "fire e h = Some h"

text \<open>
  The running process: the handler, one event sequence still to run per goroutine
  started by \<open>HandleInteraction\<close>, and the follow-up messages sent so far.
\<close>

record process =
  handler :: CommandHandler
  goroutines :: "event list list"
  sent :: "string list"

definition boot :: process where
  "boot = \<lparr>handler = NewCommandHandler, goroutines = [], sent = []\<rparr>"

definition go :: "event list \<Rightarrow> process \<Rightarrow> process" where
  "go f p = p\<lparr>goroutines := goroutines p @ [f]\<rparr>"

definition HandleInteraction :: "interaction \<Rightarrow> exec_env \<Rightarrow> process \<Rightarrow> process" where
  "HandleInteraction i env p =
     (if cmd_name i = ''add_player'' then go (handleAddPlayerAsync i env) p
      else if cmd_name i = ''list_players'' then go (handleListPlayersAsync i env) p
      else p)"

text \<open>Goroutine \<open>k\<close> runs its next event; \<open>None\<close> when it cannot.\<close>

definition step :: "nat \<Rightarrow> process \<Rightarrow> process option" where
  "step k p =
     (if k < length (goroutines p) then
        (case goroutines p ! k of
           [] \<Rightarrow> None
         | e # rest \<Rightarrow>
             (case fire e (handler p) of
                None \<Rightarrow> None
              | Some h \<Rightarrow>
                  Some (p\<lparr>handler := h,
                          goroutines := (goroutines p)[k := rest],
                          sent := sent p @ followups_of [e]\<rparr>)))
      else None)"

text \<open>A run: interactions arriving and goroutines scheduled, in any order.\<close>

datatype action = Arrive interaction exec_env | Sched nat

fun exec :: "action list \<Rightarrow> process \<Rightarrow> process option" where
  "exec [] p = Some p"
| "exec (Arrive i env # as) p = exec as (HandleInteraction i env p)"
| "exec (Sched k # as) p = (case step k p of None \<Rightarrow> None | Some p' \<Rightarrow> exec as p')"

text \<open>
  A goroutine is executing a command when its send on the worker pool is behind it
  and it has not come to its end: work, the end update or the receive that frees
  its slot is still to come. The statistics count it as active between its two
  updates, and it is admitted once its start update is behind it. A sequence of
  events is quiet when it touches neither the worker pool nor the statistics.
\<close>

definition executing :: "event list \<Rightarrow> bool" where
  "executing t \<longleftrightarrow> t \<noteq> [] \<and> Acquire \<notin> set t"

definition is_StatsEnd :: "event \<Rightarrow> bool" where
  "is_StatsEnd e = (case e of StatsEnd d \<Rightarrow> True | _ \<Rightarrow> False)"

definition counted :: "event list \<Rightarrow> bool" where
  "counted t \<longleftrightarrow> StatsStart \<notin> set t \<and> list_ex is_StatsEnd t"

definition admitted :: "event list \<Rightarrow> bool" where
  "admitted t \<longleftrightarrow> StatsStart \<notin> set t"

definition quiet :: "event list \<Rightarrow> bool" where
  "quiet t \<longleftrightarrow> Acquire \<notin> set t \<and> Release \<notin> set t \<and> StatsStart \<notin> set t \<and> \<not> list_ex is_StatsEnd t"

section \<open>Accounting over goroutines\<close>

text \<open>
  What a goroutine still owes: receives minus sends on the worker pool, end updates
  minus start updates of the statistics, and whether its start update is done.
  A goroutine is well formed when its pending events are none, or the receive
  alone, or end with the only end update and the only receive, after at most one
  send and one start update.
\<close>

definition pool_balance :: "event list \<Rightarrow> int" where
  "pool_balance t = int (count_list t Release) - int (count_list t Acquire)"

definition stats_balance :: "event list \<Rightarrow> int" where
  "stats_balance t = int (length (filter is_StatsEnd t)) - int (count_list t StatsStart)"

definition started :: "event list \<Rightarrow> int" where
  "started t = 1 - int (count_list t StatsStart)"

definition admissions :: "process \<Rightarrow> int" where
  "admissions p = (\<Sum>t\<leftarrow>goroutines p. started t)"

definition wf_thread :: "event list \<Rightarrow> bool" where
  "wf_thread t \<longleftrightarrow>
     t = [] \<or> t = [Release]
     \<or> (\<exists>pre d. t = pre @ [StatsEnd d, Release] \<and> Release \<notin> set pre
                 \<and> \<not> list_ex is_StatsEnd pre
                 \<and> count_list pre Acquire \<le> 1 \<and> count_list pre StatsStart \<le> 1)"

definition invariant :: "process \<Rightarrow> bool" where
  "invariant p \<longleftrightarrow>
     workerPool_cap (handler p) = 2
     \<and> workerPool_len (handler p) \<le> 2
     \<and> (\<forall>t \<in> set (goroutines p). wf_thread t)
     \<and> int (workerPool_len (handler p)) = (\<Sum>t\<leftarrow>goroutines p. pool_balance t)
     \<and> activeCommands (stats (handler p)) = word_of_int (\<Sum>t\<leftarrow>goroutines p. stats_balance t)
     \<and> totalCommands (stats (handler p)) = word_of_int (\<Sum>t\<leftarrow>goroutines p. started t)"

definition is_Sleep :: "effect \<Rightarrow> bool" where
  "is_Sleep e = (case e of Sleep d \<Rightarrow> True | _ \<Rightarrow> False)"

section \<open>Example data\<close>

definition ex_player :: "ObjectID \<Rightarrow> string \<Rightarrow> string \<Rightarrow> Player" where
  "ex_player oid name puuid =
     \<lparr>ID = oid, PUUID = puuid, GameName = name, TagLine = ''EUW'', Server = ''euw1'',
      SummonerID = [], SummonerLevel = 30, ProfileIconID = 0, Tier = ''GOLD'', Rank = ''II'',
      LeaguePoints = 45, Wins = 10, Losses = 8, CreatedAt = 0, UpdatedAt = 0\<rparr>"

definition ex_collection :: collection where
  "ex_collection =
     \<lparr>docs = [ex_player 1 ''Ann'' ''puuid-1'', ex_player 2 ''Bob'' ''puuid-2'',
              ex_player 3 ''Cid'' ''puuid-3''],
      next_oid = 4, read_fault = None, write_fault = (\<lambda>p. None)\<rparr>"

definition ex_down :: collection where
  "ex_down = ex_collection\<lparr>read_fault := Some ''connection refused''\<rparr>"

text \<open>A Riot API that answers for every player but the one with \<open>puuid-2\<close>.\<close>

definition ex_riot :: RiotService where
  "ex_riot =
     \<lparr>apiKey = ''RGAPI-key'',
      accountRequest = (\<lambda>url. Inl ''API request failed with status 404: ''),
      summonerRequest =
        (\<lambda>url. if url = ''https://euw1.api.riotgames.com/lol/summoner/v4/summoners/by-puuid/puuid-2''
               then Inl ''API request failed with status 500: ''
               else Inr \<lparr>sum_ID = ''sid'', sum_AccountID = ''aid'', sum_PUUID = ''puuid'',
                         sum_Name = ''name'', sum_ProfileIconID = 7, sum_RevisionDate = 0,
                         sum_SummonerLevel = 31\<rparr>),
      leagueRequest =
        (\<lambda>url. Inr [\<lparr>le_LeagueID = ''lid'', le_SummonerID = ''sid'', le_SummonerName = ''name'',
                       le_QueueType = ''RANKED_SOLO_5x5'', le_Tier = ''GOLD'', le_Rank = ''I'',
                       le_LeaguePoints = 70, le_Wins = 11, le_Losses = 8, le_HotStreak = False,
                       le_Veteran = False, le_FreshBlood = False, le_Inactive = False\<rparr>])\<rparr>"

definition ex_world :: world where
  "ex_world = \<lparr>store = ex_collection, clock = 0, effects = []\<rparr>"

definition ex_interaction :: "string \<Rightarrow> interaction" where
  "ex_interaction name = \<lparr>cmd_name = name, opt_pseudo = ''Ann'', opt_tagline = ''EUW'', opt_server = ''EUW1''\<rparr>"

text \<open>
  Executions of a handler. The acknowledgement fails, though the service would
  answer fast. The service answers fast: a list of one player after 2 s, a new
  player after 3 s. The service answers late: after 15 s and after 40 s. The service
  fails fast, with each of the three kinds of error that \<open>add_player\<close> tells apart.
\<close>

definition ex_env_noack :: exec_env where
  "ex_env_noack =
     \<lparr>ack_err = Some ''HTTP 404'', followup_err = None,
      add_call = Some (3 * second, Inr (ex_player 4 ''Dan'' ''puuid-4'')),
      list_call = Some (2 * second, Inr [ex_player 1 ''Ann'' ''puuid-1'']),
      tie_result = False, elapsed = second\<rparr>"

definition ex_env_fast :: exec_env where
  "ex_env_fast =
     \<lparr>ack_err = None, followup_err = None,
      add_call = Some (3 * second, Inr (ex_player 4 ''Dan'' ''puuid-4'')),
      list_call = Some (2 * second, Inr [ex_player 1 ''Ann'' ''puuid-1'']),
      tie_result = False, elapsed = 3 * second\<rparr>"

definition ex_env_slow :: exec_env where
  "ex_env_slow =
     \<lparr>ack_err = None, followup_err = None,
      add_call = Some (40 * second, Inr (ex_player 4 ''Dan'' ''puuid-4'')),
      list_call = Some (15 * second, Inr [ex_player 1 ''Ann'' ''puuid-1'']),
      tie_result = False, elapsed = 10 * second\<rparr>"

definition ex_env_tracked :: exec_env where
  "ex_env_tracked =
     \<lparr>ack_err = None, followup_err = None,
      add_call = Some (second, Inl ''player Ann#EUW (euw1) is already being tracked''),
      list_call = Some (second, Inl ''failed to find players: connection refused''),
      tie_result = False, elapsed = second\<rparr>"

definition ex_env_notfound :: exec_env where
  "ex_env_notfound =
     \<lparr>ack_err = None, followup_err = None,
      add_call = Some (second, Inl ''failed to fetch player from Riot API: player not found: API request failed with status 404: ''),
      list_call = None,
      tie_result = False, elapsed = second\<rparr>"

definition ex_env_failed :: exec_env where
  "ex_env_failed =
     \<lparr>ack_err = None, followup_err = None,
      add_call = Some (second, Inl ''failed to save player: failed to create player: E11000 duplicate key error''),
      list_call = None,
      tie_result = False, elapsed = second\<rparr>"

text \<open>A list of 21 players, \<open>P1\<close> to \<open>P21\<close>.\<close>

definition ex_players :: "Player list" where
  "ex_players = map (\<lambda>k. ex_player k (''P'' @ digits k) (''puuid-'' @ digits k)) [1..<22]"

text \<open>
  Two runs. In the first, three commands arrive, the first two goroutines each take
  a slot of the worker pool, do their start update and acknowledge, and the third
  is left waiting. In the second, two commands arrive and both goroutines run to
  their end, one after the other.
\<close>

definition ex_busy_run :: "action list" where
  "ex_busy_run =
     [Arrive (ex_interaction ''add_player'') ex_env_fast,
      Arrive (ex_interaction ''list_players'') ex_env_slow,
      Arrive (ex_interaction ''add_player'') ex_env_noack]
     @ replicate 3 (Sched 0) @ replicate 3 (Sched 1)"

definition ex_drained_run :: "action list" where
  "ex_drained_run =
     [Arrive (ex_interaction ''add_player'') ex_env_noack,
      Arrive (ex_interaction ''list_players'') ex_env_slow]
     @ replicate 6 (Sched 0) @ replicate 7 (Sched 1)"

section \<open>Arithmetic on 64-bit values\<close>

lemma sint_int64_range: "- (2 ^ 63) \<le> sint (a :: int64) \<and> sint a < 2 ^ 63"
  using sint_ge [of a] sint_lt [of a] by simp

lemma sint_word_of_int64:
  "- (2 ^ 63) \<le> k \<Longrightarrow> k < 2 ^ 63 \<Longrightarrow> sint (word_of_int k :: int64) = k"
  by (simp add: sint_sbintrunc' signed_take_bit_int_eq_self)

lemma sint_go_div_two:
  assumes "0 \<le> sint a"
  shows "sint (go_div a 2) = sint a div 2"
proof -
  have r: "sint a < 2 ^ 63" using sint_int64_range [of a] by simp
  have e: "sint a sdiv 2 = sint a div 2"
    using assms by (simp add: signed_divide_int_def sgn_if)
  have "sint (word_of_int (sint a div 2) :: int64) = sint a div 2"
    using assms r by (intro sint_word_of_int64) auto
  then show ?thesis by (simp add: go_div_def e)
qed

lemma sint_add_int64:
  assumes "- (2 ^ 63) \<le> sint (a :: int64) + sint (b :: int64)" "sint a + sint b < 2 ^ 63"
  shows "sint (a + b) = sint a + sint b"
proof -
  have "a + b = word_of_int (sint a + sint b)" by simp
  then have "sint (a + b) = sint (word_of_int (sint a + sint b) :: int64)" by simp
  also have "\<dots> = sint a + sint b" using assms by (intro sint_word_of_int64) auto
  finally show ?thesis .
qed

section \<open>The statistics updates\<close>

lemma statsEnd_fields:
  "totalCommands (statsEnd d st) = totalCommands st"
  "activeCommands (statsEnd d st) = activeCommands st - 1"
  "averageTime (statsEnd d st) = (if 0 < sint d then go_div (averageTime st + d) 2 else averageTime st)"
  by (simp_all add: statsEnd_def updateStats_def Let_def)

lemma statsStart_fields:
  "totalCommands (statsStart st) = totalCommands st + 1"
  "activeCommands (statsStart st) = activeCommands st + 1"
  "averageTime (statsStart st) = averageTime st"
  by (simp_all add: statsStart_def updateStats_def Let_def)

text \<open>
  Claim C5. The end update \<open>updateStats(-1, d)\<close> takes one off the active count and
  leaves the total alone. When \<open>d > 0\<close> the average becomes \<open>(average + d) / 2\<close> in
  Go's 64-bit arithmetic, and when \<open>d \<le> 0\<close> the average is left as it is. As long as
  the sum does not leave the 64-bit range and the average is not negative, the new
  average is the mathematical half of the sum, rounded down.
\<close>

theorem updateStats_end:
  "activeCommands (updateStats (- 1) d st) = activeCommands st - 1
   \<and> totalCommands (updateStats (- 1) d st) = totalCommands st
   \<and> (0 < sint d \<longrightarrow> averageTime (updateStats (- 1) d st) = go_div (averageTime st + d) 2)
   \<and> (sint d \<le> 0 \<longrightarrow> averageTime (updateStats (- 1) d st) = averageTime st)
   \<and> (0 < sint d \<and> 0 \<le> sint (averageTime st) \<and> sint (averageTime st) + sint d < 2 ^ 63
        \<longrightarrow> sint (averageTime (updateStats (- 1) d st)) = (sint (averageTime st) + sint d) div 2)"
proof -
  have "sint (go_div (averageTime st + d) 2) = (sint (averageTime st) + sint d) div 2"
    if "0 < sint d" "0 \<le> sint (averageTime st)" "sint (averageTime st) + sint d < 2 ^ 63"
  proof -
    have s: "sint (averageTime st + d) = sint (averageTime st) + sint d"
      using that by (intro sint_add_int64) auto
    then have "0 \<le> sint (averageTime st + d)" using that by simp
    then show ?thesis using s by (simp add: sint_go_div_two)
  qed
  then show ?thesis by (simp add: updateStats_def Let_def)
qed

theorem updateStats_end_witness:
  "0 < sint (6 * second)
   \<and> 0 \<le> sint (averageTime \<lparr>totalCommands = 3, activeCommands = 1, averageTime = 2 * second\<rparr>)
   \<and> sint (averageTime \<lparr>totalCommands = 3, activeCommands = 1, averageTime = 2 * second\<rparr>)
         + sint (6 * second) < 2 ^ 63
   \<and> updateStats (- 1) (6 * second) \<lparr>totalCommands = 3, activeCommands = 1, averageTime = 2 * second\<rparr>
       = \<lparr>totalCommands = 3, activeCommands = 0, averageTime = 4 * second\<rparr>
   \<and> sint (averageTime (updateStats (- 1) (6 * second)
             \<lparr>totalCommands = 3, activeCommands = 1, averageTime = 2 * second\<rparr>)) = 4000000000
   \<and> sint (0 :: duration) \<le> 0
   \<and> averageTime (updateStats (- 1) 0 \<lparr>totalCommands = 3, activeCommands = 1, averageTime = 2 * second\<rparr>)
       = 2 * second"
  using updateStats_end [of "6 * second" "\<lparr>totalCommands = 3, activeCommands = 1, averageTime = 2 * second\<rparr>"]
        updateStats_end [of 0 "\<lparr>totalCommands = 3, activeCommands = 1, averageTime = 2 * second\<rparr>"]
  by (simp add: second_def updateStats_def Let_def go_div_def signed_divide_int_def)

text \<open>
  Claim C6, as stated: from fresh statistics, two commands that complete after 4 s
  and then 6 s would leave the average at 5 s. They do not: the second completion
  averages 6 s with the 2 s left by the first.
\<close>

theorem average_after_4s_6s_counterexample:
  "averageTime (statsEnd (6 * second) (statsStart (statsEnd (4 * second) (statsStart newCommandStats))))
     \<noteq> 5 * second"
  by (simp add: statsEnd_def statsStart_def updateStats_def Let_def newCommandStats_def second_def
        go_div_def signed_divide_int_def)

text \<open>
  Claim C6, amended: from fresh statistics (average 0) the average is
  \<open>(0 + 4) / 2 = 2\<close> seconds after the first completion and \<open>(2 + 6) / 2 = 4\<close> seconds
  after the second.
\<close>

theorem average_after_4s_6s:
  "averageTime newCommandStats = 0
   \<and> averageTime (statsEnd (4 * second) (statsStart newCommandStats)) = go_div (0 + 4 * second) 2
   \<and> averageTime (statsEnd (4 * second) (statsStart newCommandStats)) = 2 * second
   \<and> averageTime (statsEnd (6 * second) (statsStart (statsEnd (4 * second) (statsStart newCommandStats))))
       = go_div (2 * second + 6 * second) 2
   \<and> averageTime (statsEnd (6 * second) (statsStart (statsEnd (4 * second) (statsStart newCommandStats))))
       = 4 * second"
  by (simp add: statsEnd_def statsStart_def updateStats_def Let_def newCommandStats_def second_def
        go_div_def signed_divide_int_def)

section \<open>Dispatch\<close>

text \<open>
  Claim C8. An interaction whose command name is neither \<open>add_player\<close> nor
  \<open>list_players\<close> leaves the whole process as it was: no goroutine is started, no
  message is sent, worker pool and statistics keep their values, and the rest of any
  run goes on as if the interaction had not arrived.
\<close>

theorem HandleInteraction_unknown:
  "cmd_name i \<noteq> ''add_player'' \<Longrightarrow> cmd_name i \<noteq> ''list_players'' \<Longrightarrow>
     HandleInteraction i env p = p \<and> exec (Arrive i env # acts) p = exec acts p"
  by (simp add: HandleInteraction_def)

theorem HandleInteraction_unknown_witness:
  "cmd_name (ex_interaction ''remove_player'') \<noteq> ''add_player''
   \<and> cmd_name (ex_interaction ''remove_player'') \<noteq> ''list_players''
   \<and> HandleInteraction (ex_interaction ''remove_player'') ex_env_fast boot = boot
   \<and> exec [Arrive (ex_interaction ''remove_player'') ex_env_fast] boot = Some boot"
  using HandleInteraction_unknown [of "ex_interaction ''remove_player''" ex_env_fast boot "[]"]
  by (simp add: ex_interaction_def)

section \<open>The rendered list of players\<close>

lemma players_loop_eq:
  "players_loop n idx ps acc =
     acc @ concat (map player_entry (take (20 - idx) ps))
         @ (if 20 - idx < length ps then more_players_line n else [])"
proof (induction ps arbitrary: idx acc)
  case Nil
  then show ?case by simp
next
  case (Cons p ps)
  show ?case
  proof (cases "20 \<le> idx")
    case True
    then show ?thesis by simp
  next
    case False
    then have "20 - idx = Suc (20 - (idx + 1))" by simp
    then show ?thesis using False Cons.IH [of "idx + 1" "acc @ player_entry p"]
      by (simp del: One_nat_def)
  qed
qed

lemma player_entry_text:
  "player_entry = (\<lambda>p.
     glyph_bust @ '' **'' @ GameName p @ ''#'' @ TagLine p @ ''** ('' @ ToUpper (Server p) @ '')'' @ nl
       @ ''   '' @ glyph_chart @ '' Level '' @ fmt_d (SummonerLevel p) @ '' '' @ glyph_bullet @ '' ''
       @ (if Tier p = ''UNRANKED'' then glyph_new @ '' Unranked''
          else glyph_trophy @ '' '' @ Tier p @ '' '' @ Rank p @ '' '' @ fmt_d (LeaguePoints p) @ '' LP'')
       @ nl @ nl)"
  by (rule ext) (simp add: player_entry_def Let_def)

lemma sendPlayersList_text:
  "players \<noteq> [] \<Longrightarrow>
     sendPlayersList players =
       glyph_clipboard @ '' **Tracked Players ('' @ fmt_d (int (length players)) @ '')**'' @ nl @ nl
         @ concat (map (\<lambda>p.
             glyph_bust @ '' **'' @ GameName p @ ''#'' @ TagLine p @ ''** ('' @ ToUpper (Server p) @ '')'' @ nl
               @ ''   '' @ glyph_chart @ '' Level '' @ fmt_d (SummonerLevel p) @ '' '' @ glyph_bullet @ '' ''
               @ (if Tier p = ''UNRANKED'' then glyph_new @ '' Unranked''
                  else glyph_trophy @ '' '' @ Tier p @ '' '' @ Rank p @ '' ''
                         @ fmt_d (LeaguePoints p) @ '' LP'')
               @ nl @ nl) (take 20 players))
         @ (if 20 < length players
            then ''... and '' @ fmt_d (int (length players) - 20) @ '' more players'' @ nl
            else [])"
  unfolding player_entry_text [symmetric]
  by (simp add: sendPlayersList_def players_loop_eq list_header_def more_players_line_def)

text \<open>
  Claim C10. For an empty list \<open>sendPlayersList\<close> sends the "no players tracked"
  message. For any other list the message is the header with the full number of
  players; then, for each of the first 20 players in order, an entry with the
  player's name, tag line, server in upper case, level and rank; then, when
  there are more than 20, the line "... and K more players" with K the length minus
  20. It differs from the message for the empty list.
\<close>

theorem sendPlayersList_render:
  "sendPlayersList [] = glyph_mailbox @ '' No players tracked yet!'' @ nl
                          @ ''Use `/add_player` to start tracking.''
   \<and> (players \<noteq> [] \<longrightarrow>
        sendPlayersList players =
          glyph_clipboard @ '' **Tracked Players ('' @ fmt_d (int (length players)) @ '')**'' @ nl @ nl
            @ concat (map (\<lambda>p.
                glyph_bust @ '' **'' @ GameName p @ ''#'' @ TagLine p @ ''** ('' @ ToUpper (Server p) @ '')'' @ nl
                  @ ''   '' @ glyph_chart @ '' Level '' @ fmt_d (SummonerLevel p) @ '' '' @ glyph_bullet @ '' ''
                  @ (if Tier p = ''UNRANKED'' then glyph_new @ '' Unranked''
                     else glyph_trophy @ '' '' @ Tier p @ '' '' @ Rank p @ '' ''
                            @ fmt_d (LeaguePoints p) @ '' LP'')
                  @ nl @ nl) (take 20 players))
            @ (if 20 < length players
               then ''... and '' @ fmt_d (int (length players) - 20) @ '' more players'' @ nl
               else [])
        \<and> sendPlayersList players \<noteq> sendPlayersList [])"
proof -
  have a: "sendPlayersList [] = glyph_mailbox @ '' No players tracked yet!'' @ nl
                          @ ''Use `/add_player` to start tracking.''"
    by (simp add: sendPlayersList_def no_players_msg_def)
  have c: "sendPlayersList players \<noteq> sendPlayersList []" if "players \<noteq> []"
  proof
    assume e: "sendPlayersList players = sendPlayersList []"
    have "take 4 (sendPlayersList players) = glyph_clipboard"
      using sendPlayersList_text [OF that] by (simp add: glyph_clipboard_def)
    moreover have "take 4 (sendPlayersList []) = glyph_mailbox"
      using a by (simp add: glyph_mailbox_def)
    ultimately show False using e by (simp add: glyph_clipboard_def glyph_mailbox_def)
  qed
  show ?thesis using a sendPlayersList_text [of players] c by blast
qed

theorem sendPlayersList_render_witness:
  "[ex_player 1 ''Ann'' ''puuid-1'', (ex_player 2 ''Bob'' ''puuid-2'')\<lparr>Tier := ''UNRANKED''\<rparr>] \<noteq> []
   \<and> sendPlayersList [ex_player 1 ''Ann'' ''puuid-1'', (ex_player 2 ''Bob'' ''puuid-2'')\<lparr>Tier := ''UNRANKED''\<rparr>] =
       [CHR 0xF0, CHR 0x9F, CHR 0x93, CHR 0x8B] @ '' **Tracked Players (2)**'' @ [CHR 0x0A, CHR 0x0A]
         @ [CHR 0xF0, CHR 0x9F, CHR 0x91, CHR 0xA4] @ '' **Ann#EUW** (EUW1)'' @ [CHR 0x0A]
         @ ''   '' @ [CHR 0xF0, CHR 0x9F, CHR 0x93, CHR 0x8A] @ '' Level 30 '' @ [CHR 0xE2, CHR 0x80, CHR 0xA2]
         @ '' '' @ [CHR 0xF0, CHR 0x9F, CHR 0x8F, CHR 0x86] @ '' GOLD II 45 LP'' @ [CHR 0x0A, CHR 0x0A]
         @ [CHR 0xF0, CHR 0x9F, CHR 0x91, CHR 0xA4] @ '' **Bob#EUW** (EUW1)'' @ [CHR 0x0A]
         @ ''   '' @ [CHR 0xF0, CHR 0x9F, CHR 0x93, CHR 0x8A] @ '' Level 30 '' @ [CHR 0xE2, CHR 0x80, CHR 0xA2]
         @ '' '' @ [CHR 0xF0, CHR 0x9F, CHR 0x86, CHR 0x95] @ '' Unranked'' @ [CHR 0x0A, CHR 0x0A]
   \<and> ex_players \<noteq> [] \<and> length ex_players = 21
   \<and> map GameName (take 3 ex_players) = [''P1'', ''P2'', ''P3'']
   \<and> sendPlayersList ex_players =
       [CHR 0xF0, CHR 0x9F, CHR 0x93, CHR 0x8B] @ '' **Tracked Players (21)**'' @ [CHR 0x0A, CHR 0x0A]
         @ concat (map (\<lambda>k.
             [CHR 0xF0, CHR 0x9F, CHR 0x91, CHR 0xA4] @ '' **P'' @ digits k @ ''#EUW** (EUW1)'' @ [CHR 0x0A]
               @ ''   '' @ [CHR 0xF0, CHR 0x9F, CHR 0x93, CHR 0x8A] @ '' Level 30 ''
               @ [CHR 0xE2, CHR 0x80, CHR 0xA2] @ '' '' @ [CHR 0xF0, CHR 0x9F, CHR 0x8F, CHR 0x86]
               @ '' GOLD II 45 LP'' @ [CHR 0x0A, CHR 0x0A]) [1..<21])
         @ ''... and 1 more players'' @ [CHR 0x0A]
   \<and> sendPlayersList [] =
       [CHR 0xF0, CHR 0x9F, CHR 0x93, CHR 0xAD] @ '' No players tracked yet!'' @ [CHR 0x0A]
         @ ''Use `/add_player` to start tracking.''"
proof -
  have n2: "[ex_player 1 ''Ann'' ''puuid-1'', (ex_player 2 ''Bob'' ''puuid-2'')\<lparr>Tier := ''UNRANKED''\<rparr>] \<noteq> []"
    by simp
  have n21: "ex_players \<noteq> []" "length ex_players = 21"
            "map GameName (take 3 ex_players) = [''P1'', ''P2'', ''P3'']"
    by code_simp+
  note g2 = sendPlayersList_render [of "[ex_player 1 ''Ann'' ''puuid-1'',
              (ex_player 2 ''Bob'' ''puuid-2'')\<lparr>Tier := ''UNRANKED''\<rparr>]",
              THEN conjunct2, rule_format, OF n2, THEN conjunct1]
  note g21 = sendPlayersList_render [of ex_players, THEN conjunct2, rule_format, OF n21(1), THEN conjunct1]
  note g0 = sendPlayersList_render [of "[]", THEN conjunct1]
  have a2: "sendPlayersList [ex_player 1 ''Ann'' ''puuid-1'', (ex_player 2 ''Bob'' ''puuid-2'')\<lparr>Tier := ''UNRANKED''\<rparr>] =
       [CHR 0xF0, CHR 0x9F, CHR 0x93, CHR 0x8B] @ '' **Tracked Players (2)**'' @ [CHR 0x0A, CHR 0x0A]
         @ [CHR 0xF0, CHR 0x9F, CHR 0x91, CHR 0xA4] @ '' **Ann#EUW** (EUW1)'' @ [CHR 0x0A]
         @ ''   '' @ [CHR 0xF0, CHR 0x9F, CHR 0x93, CHR 0x8A] @ '' Level 30 '' @ [CHR 0xE2, CHR 0x80, CHR 0xA2]
         @ '' '' @ [CHR 0xF0, CHR 0x9F, CHR 0x8F, CHR 0x86] @ '' GOLD II 45 LP'' @ [CHR 0x0A, CHR 0x0A]
         @ [CHR 0xF0, CHR 0x9F, CHR 0x91, CHR 0xA4] @ '' **Bob#EUW** (EUW1)'' @ [CHR 0x0A]
         @ ''   '' @ [CHR 0xF0, CHR 0x9F, CHR 0x93, CHR 0x8A] @ '' Level 30 '' @ [CHR 0xE2, CHR 0x80, CHR 0xA2]
         @ '' '' @ [CHR 0xF0, CHR 0x9F, CHR 0x86, CHR 0x95] @ '' Unranked'' @ [CHR 0x0A, CHR 0x0A]"
    by (subst g2) code_simp
  have a21: "sendPlayersList ex_players =
       [CHR 0xF0, CHR 0x9F, CHR 0x93, CHR 0x8B] @ '' **Tracked Players (21)**'' @ [CHR 0x0A, CHR 0x0A]
         @ concat (map (\<lambda>k.
             [CHR 0xF0, CHR 0x9F, CHR 0x91, CHR 0xA4] @ '' **P'' @ digits k @ ''#EUW** (EUW1)'' @ [CHR 0x0A]
               @ ''   '' @ [CHR 0xF0, CHR 0x9F, CHR 0x93, CHR 0x8A] @ '' Level 30 ''
               @ [CHR 0xE2, CHR 0x80, CHR 0xA2] @ '' '' @ [CHR 0xF0, CHR 0x9F, CHR 0x8F, CHR 0x86]
               @ '' GOLD II 45 LP'' @ [CHR 0x0A, CHR 0x0A]) [1..<21])
         @ ''... and 1 more players'' @ [CHR 0x0A]"
    by (subst g21) code_simp
  have a0: "sendPlayersList [] =
       [CHR 0xF0, CHR 0x9F, CHR 0x93, CHR 0xAD] @ '' No players tracked yet!'' @ [CHR 0x0A]
         @ ''Use `/add_player` to start tracking.''"
    by (subst g0) code_simp
  show ?thesis using n2 n21 a2 a21 a0 by blast
qed

section \<open>The race between the service call and the deadline\<close>

lemma followups_of_append: "followups_of (xs @ ys) = followups_of xs @ followups_of ys"
  by (induction xs rule: followups_of.induct) auto

lemma followups_of_sendFollowUp: "followups_of (sendFollowUp env m) = [m]"
  by (simp add: sendFollowUp_def split: option.split)

lemma select_ctx_before:
  "call = Some (t, res) \<Longrightarrow> sint t < sint timeout \<Longrightarrow> select_ctx timeout call tie = Received res"
  by (simp add: select_ctx_def)

lemma select_ctx_after:
  "call = None \<or> (\<exists>t res. call = Some (t, res) \<and> sint timeout < sint t)
     \<Longrightarrow> select_ctx timeout call tie = CtxDone"
  by (auto simp add: select_ctx_def)

lemma followups_processAddPlayer:
  "followups_of (processAddPlayer i env) =
     (case select_ctx add_timeout (add_call env) (tie_result env) of
        Received (Inl err) \<Rightarrow>
          [handleAddPlayerErrors err (opt_pseudo i) (opt_tagline i) (ToLower (opt_server i))]
      | Received (Inr player) \<Rightarrow> [sendAppPlayerSuccess player]
      | CtxDone \<Rightarrow> [glyph_cross @ '' Request timed out. Please try again later.''])"
  by (simp add: processAddPlayer_def Let_def followups_of_append followups_of_sendFollowUp
        split: select_result.split sum.split)

lemma followups_handleAddPlayerAsync:
  "ack_err env = None \<Longrightarrow>
     followups_of (handleAddPlayerAsync i env) = followups_of (processAddPlayer i env)"
  by (simp add: handleAddPlayerAsync_def returning_def followups_of_append)

lemma followups_handleListPlayersAsync:
  "ack_err env = None \<Longrightarrow>
   followups_of (handleListPlayersAsync i env) =
     (case select_ctx list_timeout (list_call env) (tie_result env) of
        Received (Inr players) \<Rightarrow> [sendPlayersList players]
      | Received (Inl err) \<Rightarrow> [glyph_cross @ '' Failed to fetch players from database: '' @ err]
      | CtxDone \<Rightarrow> [glyph_cross @ '' Request timed out''])"
  by (simp add: handleListPlayersAsync_def returning_def followups_of_append followups_of_sendFollowUp
        split: select_result.split sum.split)

lemma no_ack_no_race:
  assumes "ack_err env \<noteq> None"
  shows "followups_of (handleAddPlayerAsync i env) = []"
        "GoServiceCall \<notin> set (handleAddPlayerAsync i env)"
        "followups_of (handleListPlayersAsync i env) = []"
        "GoServiceCall \<notin> set (handleListPlayersAsync i env)"
  using assms
  by (auto simp add: handleAddPlayerAsync_def handleListPlayersAsync_def returning_def)

lemma ack_starts_call:
  assumes "ack_err env = None"
  shows "GoServiceCall \<in> set (handleAddPlayerAsync i env)"
        "GoServiceCall \<in> set (handleListPlayersAsync i env)"
  using assms
  by (simp_all add: handleAddPlayerAsync_def handleListPlayersAsync_def returning_def
        processAddPlayer_def Let_def)

text \<open>
  Claim C3, as stated: every execution of \<open>add_player\<close> or \<open>list_players\<close> would race
  its service call against the deadline and answer with the result or the time-out.
  When the deferred acknowledgement fails, the handler returns at once: the service
  call is never started and no message is sent, although the call would have
  delivered a new player after 3 s and a list after 2 s.
\<close>

theorem no_ack_no_race_counterexample:
  "add_call ex_env_noack = Some (3 * second, Inr (ex_player 4 ''Dan'' ''puuid-4''))
   \<and> sint (3 * second) < sint add_timeout
   \<and> followups_of (handleAddPlayerAsync (ex_interaction ''add_player'') ex_env_noack) = []
   \<and> GoServiceCall \<notin> set (handleAddPlayerAsync (ex_interaction ''add_player'') ex_env_noack)
   \<and> list_call ex_env_noack = Some (2 * second, Inr [ex_player 1 ''Ann'' ''puuid-1''])
   \<and> sint (2 * second) < sint list_timeout
   \<and> followups_of (handleListPlayersAsync (ex_interaction ''list_players'') ex_env_noack) = []
   \<and> GoServiceCall \<notin> set (handleListPlayersAsync (ex_interaction ''list_players'') ex_env_noack)"
  by (simp add: ex_env_noack_def handleAddPlayerAsync_def handleListPlayersAsync_def returning_def
        second_def add_timeout_def list_timeout_def)

text \<open>
  Claim C3, amended. The deadline of \<open>add_player\<close> is 30 seconds and that of
  \<open>list_players\<close> is 10 seconds. An execution whose deferred acknowledgement succeeds
  starts the service call and sends exactly one follow-up message. When the call
  delivers before the deadline, the message is that of its result: for a new
  player the success text with name, tag line, server, level and rank; for an
  error the "already being tracked" text, the "not found" text with its tips or
  the generic text with the error, by what the error text contains; for a list of
  players the rendered list; for a failed fetch the text with the error. When the
  deadline comes first, or the call never returns, the message is the time-out
  text and the late result is not sent. An execution whose acknowledgement fails
  starts no call and sends nothing.
\<close>

theorem deadline_race:
  "add_timeout = 30 * second \<and> list_timeout = 10 * second
   \<and> (ack_err env \<noteq> None \<longrightarrow>
        followups_of (handleAddPlayerAsync i env) = []
        \<and> GoServiceCall \<notin> set (handleAddPlayerAsync i env)
        \<and> followups_of (handleListPlayersAsync i env) = []
        \<and> GoServiceCall \<notin> set (handleListPlayersAsync i env))
   \<and> (ack_err env = None \<longrightarrow>
        GoServiceCall \<in> set (handleAddPlayerAsync i env)
        \<and> GoServiceCall \<in> set (handleListPlayersAsync i env)
        \<and> followups_of (handleAddPlayerAsync i env) = followups_of (processAddPlayer i env))
   \<and> (\<forall>t player. ack_err env = None \<longrightarrow> add_call env = Some (t, Inr player) \<longrightarrow>
        sint t < sint (30 * second) \<longrightarrow>
        followups_of (handleAddPlayerAsync i env) =
          [glyph_check @ '' Successfully added **'' @ GameName player @ ''#'' @ TagLine player
             @ ''** ('' @ ToUpper (Server player) @ '')'' @ nl
             @ glyph_chart @ '' **Level:** '' @ fmt_d (SummonerLevel player) @ nl
             @ (if Tier player = ''UNRANKED'' then glyph_new @ '' **Unranked**''
                else glyph_trophy @ '' **'' @ Tier player @ '' '' @ Rank player @ ''** ''
                       @ glyph_bullet @ '' '' @ fmt_d (LeaguePoints player) @ '' LP'')])
   \<and> (\<forall>t err. ack_err env = None \<longrightarrow> add_call env = Some (t, Inl err) \<longrightarrow>
        sint t < sint (30 * second) \<longrightarrow>
        followups_of (handleAddPlayerAsync i env) =
          [if Contains err ''already being tracked''
           then glyph_cross @ '' Player **'' @ opt_pseudo i @ ''#'' @ opt_tagline i @ ''** (''
                  @ ToUpper (ToLower (opt_server i)) @ '') is already being tracked!''
           else if Contains err ''not found''
           then glyph_cross @ '' Player **'' @ opt_pseudo i @ ''#'' @ opt_tagline i
                  @ ''** not found on server **'' @ ToUpper (ToLower (opt_server i)) @ ''**''
                  @ nl @ nl @ glyph_bulb @ '' **Tips:**'' @ nl
                  @ glyph_bullet @ '' Check the spelling of the name and tagline'' @ nl
                  @ glyph_bullet @ '' Make sure the server is correct'' @ nl
                  @ glyph_bullet @ '' The player might not exist or have never played ranked''
           else glyph_cross @ '' Failed to add player **'' @ opt_pseudo i @ ''#'' @ opt_tagline i
                  @ ''**'' @ nl @ nl @ ''**Error:** '' @ err])
   \<and> (ack_err env = None \<longrightarrow>
        add_call env = None \<or> (\<exists>t res. add_call env = Some (t, res) \<and> sint (30 * second) < sint t) \<longrightarrow>
        followups_of (handleAddPlayerAsync i env) =
          [glyph_cross @ '' Request timed out. Please try again later.''])
   \<and> (\<forall>t players. ack_err env = None \<longrightarrow> list_call env = Some (t, Inr players) \<longrightarrow>
        sint t < sint (10 * second) \<longrightarrow>
        followups_of (handleListPlayersAsync i env) = [sendPlayersList players])
   \<and> (\<forall>t err. ack_err env = None \<longrightarrow> list_call env = Some (t, Inl err) \<longrightarrow>
        sint t < sint (10 * second) \<longrightarrow>
        followups_of (handleListPlayersAsync i env) =
          [glyph_cross @ '' Failed to fetch players from database: '' @ err])
   \<and> (ack_err env = None \<longrightarrow>
        list_call env = None \<or> (\<exists>t res. list_call env = Some (t, res) \<and> sint (10 * second) < sint t) \<longrightarrow>
        followups_of (handleListPlayersAsync i env) = [glyph_cross @ '' Request timed out''])"
proof -
  have a1: "followups_of (handleAddPlayerAsync i env) =
          [glyph_check @ '' Successfully added **'' @ GameName player @ ''#'' @ TagLine player
             @ ''** ('' @ ToUpper (Server player) @ '')'' @ nl
             @ glyph_chart @ '' **Level:** '' @ fmt_d (SummonerLevel player) @ nl
             @ (if Tier player = ''UNRANKED'' then glyph_new @ '' **Unranked**''
                else glyph_trophy @ '' **'' @ Tier player @ '' '' @ Rank player @ ''** ''
                       @ glyph_bullet @ '' '' @ fmt_d (LeaguePoints player) @ '' LP'')]"
    if "ack_err env = None" "add_call env = Some (t, Inr player)" "sint t < sint (30 * second)"
    for t player
    using that
    by (simp add: followups_handleAddPlayerAsync followups_processAddPlayer
          select_ctx_before [of _ t "Inr player"] add_timeout_def sendAppPlayerSuccess_def Let_def)
  have a2: "followups_of (handleAddPlayerAsync i env) =
          [if Contains err ''already being tracked''
           then glyph_cross @ '' Player **'' @ opt_pseudo i @ ''#'' @ opt_tagline i @ ''** (''
                  @ ToUpper (ToLower (opt_server i)) @ '') is already being tracked!''
           else if Contains err ''not found''
           then glyph_cross @ '' Player **'' @ opt_pseudo i @ ''#'' @ opt_tagline i
                  @ ''** not found on server **'' @ ToUpper (ToLower (opt_server i)) @ ''**''
                  @ nl @ nl @ glyph_bulb @ '' **Tips:**'' @ nl
                  @ glyph_bullet @ '' Check the spelling of the name and tagline'' @ nl
                  @ glyph_bullet @ '' Make sure the server is correct'' @ nl
                  @ glyph_bullet @ '' The player might not exist or have never played ranked''
           else glyph_cross @ '' Failed to add player **'' @ opt_pseudo i @ ''#'' @ opt_tagline i
                  @ ''**'' @ nl @ nl @ ''**Error:** '' @ err]"
    if "ack_err env = None" "add_call env = Some (t, Inl err)" "sint t < sint (30 * second)"
    for t err
    using that
    by (simp add: followups_handleAddPlayerAsync followups_processAddPlayer
          select_ctx_before [of _ t "Inl err"] add_timeout_def handleAddPlayerErrors_def)
  have a3: "followups_of (handleAddPlayerAsync i env) =
          [glyph_cross @ '' Request timed out. Please try again later.'']"
    if "ack_err env = None"
       "add_call env = None \<or> (\<exists>t res. add_call env = Some (t, res) \<and> sint (30 * second) < sint t)"
    using select_ctx_after [of "add_call env" "30 * second" "tie_result env"] that
    by (simp add: followups_handleAddPlayerAsync followups_processAddPlayer add_timeout_def)
  have b1: "followups_of (handleListPlayersAsync i env) = [sendPlayersList players]"
    if "ack_err env = None" "list_call env = Some (t, Inr players)" "sint t < sint (10 * second)"
    for t players
    using that
    by (simp add: followups_handleListPlayersAsync select_ctx_before [of _ t "Inr players"]
          list_timeout_def)
  have b2: "followups_of (handleListPlayersAsync i env) =
          [glyph_cross @ '' Failed to fetch players from database: '' @ err]"
    if "ack_err env = None" "list_call env = Some (t, Inl err)" "sint t < sint (10 * second)"
    for t err
    using that
    by (simp add: followups_handleListPlayersAsync select_ctx_before [of _ t "Inl err"]
          list_timeout_def)
  have b3: "followups_of (handleListPlayersAsync i env) = [glyph_cross @ '' Request timed out'']"
    if "ack_err env = None"
       "list_call env = None \<or> (\<exists>t res. list_call env = Some (t, res) \<and> sint (10 * second) < sint t)"
    using select_ctx_after [of "list_call env" "10 * second" "tie_result env"] that
    by (simp add: followups_handleListPlayersAsync list_timeout_def)
  show ?thesis
    by (intro conjI allI impI add_timeout_def list_timeout_def
          no_ack_no_race ack_starts_call followups_handleAddPlayerAsync a1 a2 a3 b1 b2 b3)
qed

theorem deadline_race_witness:
  "ack_err ex_env_fast = None
   \<and> add_call ex_env_fast = Some (3 * second, Inr (ex_player 4 ''Dan'' ''puuid-4''))
   \<and> sint (3 * second) < sint (30 * second)
   \<and> followups_of (handleAddPlayerAsync (ex_interaction ''add_player'') ex_env_fast) =
       [[CHR 0xE2, CHR 0x9C, CHR 0x85] @ '' Successfully added **Dan#EUW** (EUW1)'' @ [CHR 0x0A]
          @ [CHR 0xF0, CHR 0x9F, CHR 0x93, CHR 0x8A] @ '' **Level:** 30'' @ [CHR 0x0A]
          @ [CHR 0xF0, CHR 0x9F, CHR 0x8F, CHR 0x86] @ '' **GOLD II** '' @ [CHR 0xE2, CHR 0x80, CHR 0xA2]
          @ '' 45 LP'']
   \<and> add_call ex_env_tracked = Some (second, Inl ''player Ann#EUW (euw1) is already being tracked'')
   \<and> sint second < sint (30 * second)
   \<and> followups_of (handleAddPlayerAsync (ex_interaction ''add_player'') ex_env_tracked) =
       [[CHR 0xE2, CHR 0x9D, CHR 0x8C] @ '' Player **Ann#EUW** (EUW1) is already being tracked!'']
   \<and> followups_of (handleAddPlayerAsync (ex_interaction ''add_player'') ex_env_notfound) =
       [[CHR 0xE2, CHR 0x9D, CHR 0x8C] @ '' Player **Ann#EUW** not found on server **EUW1**''
          @ [CHR 0x0A, CHR 0x0A] @ [CHR 0xF0, CHR 0x9F, CHR 0x92, CHR 0xA1] @ '' **Tips:**'' @ [CHR 0x0A]
          @ [CHR 0xE2, CHR 0x80, CHR 0xA2] @ '' Check the spelling of the name and tagline'' @ [CHR 0x0A]
          @ [CHR 0xE2, CHR 0x80, CHR 0xA2] @ '' Make sure the server is correct'' @ [CHR 0x0A]
          @ [CHR 0xE2, CHR 0x80, CHR 0xA2] @ '' The player might not exist or have never played ranked'']
   \<and> followups_of (handleAddPlayerAsync (ex_interaction ''add_player'') ex_env_failed) =
       [[CHR 0xE2, CHR 0x9D, CHR 0x8C] @ '' Failed to add player **Ann#EUW**'' @ [CHR 0x0A, CHR 0x0A]
          @ ''**Error:** failed to save player: failed to create player: E11000 duplicate key error'']
   \<and> add_call ex_env_slow = Some (40 * second, Inr (ex_player 4 ''Dan'' ''puuid-4''))
   \<and> sint (30 * second) < sint (40 * second)
   \<and> followups_of (handleAddPlayerAsync (ex_interaction ''add_player'') ex_env_slow) =
       [[CHR 0xE2, CHR 0x9D, CHR 0x8C] @ '' Request timed out. Please try again later.'']
   \<and> list_call ex_env_fast = Some (2 * second, Inr [ex_player 1 ''Ann'' ''puuid-1''])
   \<and> sint (2 * second) < sint (10 * second)
   \<and> followups_of (handleListPlayersAsync (ex_interaction ''list_players'') ex_env_fast) =
       [[CHR 0xF0, CHR 0x9F, CHR 0x93, CHR 0x8B] @ '' **Tracked Players (1)**'' @ [CHR 0x0A, CHR 0x0A]
          @ [CHR 0xF0, CHR 0x9F, CHR 0x91, CHR 0xA4] @ '' **Ann#EUW** (EUW1)'' @ [CHR 0x0A]
          @ ''   '' @ [CHR 0xF0, CHR 0x9F, CHR 0x93, CHR 0x8A] @ '' Level 30 '' @ [CHR 0xE2, CHR 0x80, CHR 0xA2]
          @ '' '' @ [CHR 0xF0, CHR 0x9F, CHR 0x8F, CHR 0x86] @ '' GOLD II 45 LP'' @ [CHR 0x0A, CHR 0x0A]]
   \<and> list_call ex_env_tracked = Some (second, Inl ''failed to find players: connection refused'')
   \<and> sint second < sint (10 * second)
   \<and> followups_of (handleListPlayersAsync (ex_interaction ''list_players'') ex_env_tracked) =
       [[CHR 0xE2, CHR 0x9D, CHR 0x8C]
          @ '' Failed to fetch players from database: failed to find players: connection refused'']
   \<and> list_call ex_env_slow = Some (15 * second, Inr [ex_player 1 ''Ann'' ''puuid-1''])
   \<and> sint (10 * second) < sint (15 * second)
   \<and> followups_of (handleListPlayersAsync (ex_interaction ''list_players'') ex_env_slow) =
       [[CHR 0xE2, CHR 0x9D, CHR 0x8C] @ '' Request timed out'']
   \<and> ack_err ex_env_noack \<noteq> None
   \<and> followups_of (handleAddPlayerAsync (ex_interaction ''add_player'') ex_env_noack) = []
   \<and> followups_of (handleListPlayersAsync (ex_interaction ''list_players'') ex_env_noack) = []"
proof -
  have ack: "ack_err ex_env_fast = None" "ack_err ex_env_slow = None" "ack_err ex_env_tracked = None"
            "ack_err ex_env_notfound = None" "ack_err ex_env_failed = None"
            "ack_err ex_env_noack \<noteq> None"
    by (simp_all add: ex_env_fast_def ex_env_slow_def ex_env_tracked_def ex_env_notfound_def
          ex_env_failed_def ex_env_noack_def)
  have lt: "sint (3 * second) < sint (30 * second)" "sint second < sint (30 * second)"
           "sint (30 * second) < sint (40 * second)" "sint (2 * second) < sint (10 * second)"
           "sint second < sint (10 * second)" "sint (10 * second) < sint (15 * second)"
    by (simp_all add: second_def)
  have c: "add_call ex_env_fast = Some (3 * second, Inr (ex_player 4 ''Dan'' ''puuid-4''))"
          "add_call ex_env_tracked = Some (second, Inl ''player Ann#EUW (euw1) is already being tracked'')"
          "add_call ex_env_notfound = Some (second, Inl ''failed to fetch player from Riot API: player not found: API request failed with status 404: '')"
          "add_call ex_env_failed = Some (second, Inl ''failed to save player: failed to create player: E11000 duplicate key error'')"
          "add_call ex_env_slow = Some (40 * second, Inr (ex_player 4 ''Dan'' ''puuid-4''))"
          "list_call ex_env_fast = Some (2 * second, Inr [ex_player 1 ''Ann'' ''puuid-1''])"
          "list_call ex_env_tracked = Some (second, Inl ''failed to find players: connection refused'')"
          "list_call ex_env_slow = Some (15 * second, Inr [ex_player 1 ''Ann'' ''puuid-1''])"
    by (simp_all add: ex_env_fast_def ex_env_slow_def ex_env_tracked_def ex_env_notfound_def
          ex_env_failed_def)
  have late: "add_call ex_env_slow = None
                \<or> (\<exists>t res. add_call ex_env_slow = Some (t, res) \<and> sint (30 * second) < sint t)"
             "list_call ex_env_slow = None
                \<or> (\<exists>t res. list_call ex_env_slow = Some (t, res) \<and> sint (10 * second) < sint t)"
    using c(5,8) lt(3,6) by simp_all
  note ok = deadline_race [of ex_env_fast "ex_interaction ''add_player''",
              THEN conjunct2, THEN conjunct2, THEN conjunct2, THEN conjunct2, THEN conjunct1,
              rule_format, OF ack(1) c(1) lt(1)]
  note tracked = deadline_race [of ex_env_tracked "ex_interaction ''add_player''",
              THEN conjunct2, THEN conjunct2, THEN conjunct2, THEN conjunct2, THEN conjunct2,
              THEN conjunct1, rule_format, OF ack(3) c(2) lt(2)]
  note notfound = deadline_race [of ex_env_notfound "ex_interaction ''add_player''",
              THEN conjunct2, THEN conjunct2, THEN conjunct2, THEN conjunct2, THEN conjunct2,
              THEN conjunct1, rule_format, OF ack(4) c(3) lt(2)]
  note failed = deadline_race [of ex_env_failed "ex_interaction ''add_player''",
              THEN conjunct2, THEN conjunct2, THEN conjunct2, THEN conjunct2, THEN conjunct2,
              THEN conjunct1, rule_format, OF ack(5) c(4) lt(2)]
  note slow = deadline_race [of ex_env_slow "ex_interaction ''add_player''",
              THEN conjunct2, THEN conjunct2, THEN conjunct2, THEN conjunct2, THEN conjunct2,
              THEN conjunct2, THEN conjunct1, THEN mp, THEN mp, OF ack(2) late(1)]
  note listed = deadline_race [of ex_env_fast "ex_interaction ''list_players''",
              THEN conjunct2, THEN conjunct2, THEN conjunct2, THEN conjunct2, THEN conjunct2,
              THEN conjunct2, THEN conjunct2, THEN conjunct1, rule_format, OF ack(1) c(6) lt(4)]
  note nofetch = deadline_race [of ex_env_tracked "ex_interaction ''list_players''",
              THEN conjunct2, THEN conjunct2, THEN conjunct2, THEN conjunct2, THEN conjunct2,
              THEN conjunct2, THEN conjunct2, THEN conjunct2, THEN conjunct1, rule_format,
              OF ack(3) c(7) lt(5)]
  note listslow = deadline_race [of ex_env_slow "ex_interaction ''list_players''",
              THEN conjunct2, THEN conjunct2, THEN conjunct2, THEN conjunct2, THEN conjunct2,
              THEN conjunct2, THEN conjunct2, THEN conjunct2, THEN conjunct2, THEN mp, THEN mp,
              OF ack(2) late(2)]
  note noack_add = deadline_race [of ex_env_noack "ex_interaction ''add_player''",
              THEN conjunct2, THEN conjunct2, THEN conjunct1, THEN mp, OF ack(6), THEN conjunct1]
  note noack_list = deadline_race [of ex_env_noack "ex_interaction ''list_players''",
              THEN conjunct2, THEN conjunct2, THEN conjunct1, THEN mp, OF ack(6),
              THEN conjunct2, THEN conjunct2, THEN conjunct1]
  have r1: "followups_of (handleAddPlayerAsync (ex_interaction ''add_player'') ex_env_fast) =
       [[CHR 0xE2, CHR 0x9C, CHR 0x85] @ '' Successfully added **Dan#EUW** (EUW1)'' @ [CHR 0x0A]
          @ [CHR 0xF0, CHR 0x9F, CHR 0x93, CHR 0x8A] @ '' **Level:** 30'' @ [CHR 0x0A]
          @ [CHR 0xF0, CHR 0x9F, CHR 0x8F, CHR 0x86] @ '' **GOLD II** '' @ [CHR 0xE2, CHR 0x80, CHR 0xA2]
          @ '' 45 LP'']"
    by (subst ok) code_simp
  have r2: "followups_of (handleAddPlayerAsync (ex_interaction ''add_player'') ex_env_tracked) =
       [[CHR 0xE2, CHR 0x9D, CHR 0x8C] @ '' Player **Ann#EUW** (EUW1) is already being tracked!'']"
    by (subst tracked) code_simp
  have r3: "followups_of (handleAddPlayerAsync (ex_interaction ''add_player'') ex_env_notfound) =
       [[CHR 0xE2, CHR 0x9D, CHR 0x8C] @ '' Player **Ann#EUW** not found on server **EUW1**''
          @ [CHR 0x0A, CHR 0x0A] @ [CHR 0xF0, CHR 0x9F, CHR 0x92, CHR 0xA1] @ '' **Tips:**'' @ [CHR 0x0A]
          @ [CHR 0xE2, CHR 0x80, CHR 0xA2] @ '' Check the spelling of the name and tagline'' @ [CHR 0x0A]
          @ [CHR 0xE2, CHR 0x80, CHR 0xA2] @ '' Make sure the server is correct'' @ [CHR 0x0A]
          @ [CHR 0xE2, CHR 0x80, CHR 0xA2] @ '' The player might not exist or have never played ranked'']"
    by (subst notfound) code_simp
  have r4: "followups_of (handleAddPlayerAsync (ex_interaction ''add_player'') ex_env_failed) =
       [[CHR 0xE2, CHR 0x9D, CHR 0x8C] @ '' Failed to add player **Ann#EUW**'' @ [CHR 0x0A, CHR 0x0A]
          @ ''**Error:** failed to save player: failed to create player: E11000 duplicate key error'']"
    by (subst failed) code_simp
  have r5: "followups_of (handleAddPlayerAsync (ex_interaction ''add_player'') ex_env_slow) =
       [[CHR 0xE2, CHR 0x9D, CHR 0x8C] @ '' Request timed out. Please try again later.'']"
    by (subst slow) code_simp
  have r6: "followups_of (handleListPlayersAsync (ex_interaction ''list_players'') ex_env_fast) =
       [[CHR 0xF0, CHR 0x9F, CHR 0x93, CHR 0x8B] @ '' **Tracked Players (1)**'' @ [CHR 0x0A, CHR 0x0A]
          @ [CHR 0xF0, CHR 0x9F, CHR 0x91, CHR 0xA4] @ '' **Ann#EUW** (EUW1)'' @ [CHR 0x0A]
          @ ''   '' @ [CHR 0xF0, CHR 0x9F, CHR 0x93, CHR 0x8A] @ '' Level 30 '' @ [CHR 0xE2, CHR 0x80, CHR 0xA2]
          @ '' '' @ [CHR 0xF0, CHR 0x9F, CHR 0x8F, CHR 0x86] @ '' GOLD II 45 LP'' @ [CHR 0x0A, CHR 0x0A]]"
    by (subst listed) code_simp
  have r7: "followups_of (handleListPlayersAsync (ex_interaction ''list_players'') ex_env_tracked) =
       [[CHR 0xE2, CHR 0x9D, CHR 0x8C]
          @ '' Failed to fetch players from database: failed to find players: connection refused'']"
    by (subst nofetch) code_simp
  have r8: "followups_of (handleListPlayersAsync (ex_interaction ''list_players'') ex_env_slow) =
       [[CHR 0xE2, CHR 0x9D, CHR 0x8C] @ '' Request timed out'']"
    by (subst listslow) code_simp
  show ?thesis
    using ack(1,6) lt c(1,2,5,6,7,8) r1 r2 r3 r4 r5 r6 r7 r8 noack_add noack_list by blast
qed

section \<open>Looking a player up before adding it\<close>

lemma find_SomeD: "find P xs = Some x \<Longrightarrow> x \<in> set xs \<and> P x"
  by (induction xs) (auto split: if_splits)

text \<open>
  Claim C9. \<open>FindByRiotID\<close> returns (nil, nil) exactly when the store answers and no
  document has the given name, tag line and server; its error is set exactly when
  the store fails. \<open>AddPlayer\<close> tells the three answers apart: on (nil, nil) it goes
  on to the Riot lookup and the insertion, on a player it reports that the player is
  already tracked, on an error it reports that the check failed; in the last two
  cases the store is left as it was.
\<close>

theorem FindByRiotID_nil_nil:
  "(FindByRiotID c g t s = (None, None) \<longleftrightarrow>
      read_fault c = None
      \<and> (\<forall>p \<in> set (docs c). \<not> (GameName p = g \<and> TagLine p = t \<and> Server p = s)))
   \<and> (snd (FindByRiotID c g t s) \<noteq> None \<longleftrightarrow> read_fault c \<noteq> None)
   \<and> (FindByRiotID c g t s = (None, None) \<longrightarrow>
        AddPlayer r c now g t s =
          (case GetPlayerByRiotID r g t s of
             Inl err \<Rightarrow> (c, Inl (''failed to fetch player from Riot API: '' @ err))
           | Inr player \<Rightarrow>
               (case Create c now player of
                  Inl err \<Rightarrow> (c, Inl (''failed to save player: '' @ err))
                | Inr (c', player') \<Rightarrow> (c', Inr player'))))
   \<and> (\<forall>p. FindByRiotID c g t s = (Some p, None) \<longrightarrow>
        AddPlayer r c now g t s =
          (c, Inl (''player '' @ g @ ''#'' @ t @ '' ('' @ s @ '') is already being tracked'')))
   \<and> (\<forall>e. snd (FindByRiotID c g t s) = Some e \<longrightarrow>
        AddPlayer r c now g t s = (c, Inl (''failed to check existing player: '' @ e)))"
proof -
  have a: "FindByRiotID c g t s = (None, None) \<longleftrightarrow>
      read_fault c = None
      \<and> (\<forall>p \<in> set (docs c). \<not> (GameName p = g \<and> TagLine p = t \<and> Server p = s))"
    by (auto simp add: FindByRiotID_def FindOne_def find_None_iff dest: find_SomeD
          split: option.splits)
  have b: "snd (FindByRiotID c g t s) \<noteq> None \<longleftrightarrow> read_fault c \<noteq> None"
    by (auto simp add: FindByRiotID_def FindOne_def split: option.splits)
  have d: "AddPlayer r c now g t s = (c, Inl (''failed to check existing player: '' @ e))"
    if "snd (FindByRiotID c g t s) = Some e" for e
    using that by (cases "FindByRiotID c g t s") (auto simp add: AddPlayer_def split: option.splits)
  have e1: "AddPlayer r c now g t s =
          (case GetPlayerByRiotID r g t s of
             Inl err \<Rightarrow> (c, Inl (''failed to fetch player from Riot API: '' @ err))
           | Inr player \<Rightarrow>
               (case Create c now player of
                  Inl err \<Rightarrow> (c, Inl (''failed to save player: '' @ err))
                | Inr (c', player') \<Rightarrow> (c', Inr player')))"
    if "FindByRiotID c g t s = (None, None)"
    using that by (simp add: AddPlayer_def)
  have e2: "AddPlayer r c now g t s =
          (c, Inl (''player '' @ g @ ''#'' @ t @ '' ('' @ s @ '') is already being tracked''))"
    if "FindByRiotID c g t s = (Some p, None)" for p
    using that by (simp add: AddPlayer_def)
  show ?thesis using a b d e1 e2 by blast
qed

theorem FindByRiotID_nil_nil_witness:
  "read_fault ex_collection = None
   \<and> map GameName (docs ex_collection) = [''Ann'', ''Bob'', ''Cid'']
   \<and> FindByRiotID ex_collection ''Zed'' ''EUW'' ''euw1'' = (None, None)
   \<and> snd (AddPlayer ex_riot ex_collection 5 ''Zed'' ''EUW'' ''euw1'')
       = Inl ''failed to fetch player from Riot API: player not found: API request failed with status 404: ''
   \<and> FindByRiotID ex_collection ''Ann'' ''EUW'' ''euw1'' = (Some (ex_player 1 ''Ann'' ''puuid-1''), None)
   \<and> snd (AddPlayer ex_riot ex_collection 5 ''Ann'' ''EUW'' ''euw1'')
       = Inl ''player Ann#EUW (euw1) is already being tracked''
   \<and> read_fault ex_down \<noteq> None
   \<and> FindByRiotID ex_down ''Ann'' ''EUW'' ''euw1'' = (None, Some ''failed to find player: connection refused'')
   \<and> snd (AddPlayer ex_riot ex_down 5 ''Ann'' ''EUW'' ''euw1'')
       = Inl ''failed to check existing player: failed to find player: connection refused''"
proof -
  have f: "FindByRiotID ex_collection ''Ann'' ''EUW'' ''euw1'' = (Some (ex_player 1 ''Ann'' ''puuid-1''), None)"
          "FindByRiotID ex_down ''Ann'' ''EUW'' ''euw1'' = (None, Some ''failed to find player: connection refused'')"
    by (simp_all add: FindByRiotID_def FindOne_def ex_collection_def ex_down_def ex_player_def)
  have g: "GetPlayerByRiotID ex_riot ''Zed'' ''EUW'' ''euw1''
             = Inl ''player not found: API request failed with status 404: ''"
    by (simp add: GetPlayerByRiotID_def getAccountByRiotID_def ex_riot_def)
  have h: "read_fault ex_collection = None" "read_fault ex_down \<noteq> None"
          "\<forall>p \<in> set (docs ex_collection). \<not> (GameName p = ''Zed'' \<and> TagLine p = ''EUW'' \<and> Server p = ''euw1'')"
          "map GameName (docs ex_collection) = [''Ann'', ''Bob'', ''Cid'']"
    by (simp_all add: ex_collection_def ex_down_def ex_player_def)
  show ?thesis
    using FindByRiotID_nil_nil [of ex_collection "''Zed''" "''EUW''" "''euw1''" ex_riot 5]
          FindByRiotID_nil_nil [of ex_collection "''Ann''" "''EUW''" "''euw1''" ex_riot 5]
          FindByRiotID_nil_nil [of ex_down "''Ann''" "''EUW''" "''euw1''" ex_riot 5]
          f g h
    by simp
qed

section \<open>Goroutines, worker pool and statistics\<close>

lemma sum_list_map_update:
  fixes f :: "'a \<Rightarrow> int"
  shows "k < length xs \<Longrightarrow> (\<Sum>x\<leftarrow>xs[k := y]. f x) = (\<Sum>x\<leftarrow>xs. f x) - f (xs ! k) + f y"
proof (induction xs arbitrary: k)
  case Nil
  then show ?case by simp
next
  case (Cons a xs)
  then show ?case by (cases k) simp_all
qed

lemma quiet_Nil: "quiet []"
  by (simp add: quiet_def)

lemma quiet_Cons:
  "quiet (e # es) \<longleftrightarrow> e \<noteq> Acquire \<and> e \<noteq> Release \<and> e \<noteq> StatsStart \<and> \<not> is_StatsEnd e \<and> quiet es"
  by (auto simp add: quiet_def)

lemma quiet_append: "quiet (xs @ ys) \<longleftrightarrow> quiet xs \<and> quiet ys"
  by (auto simp add: quiet_def)

lemma quiet_sendFollowUp: "quiet (sendFollowUp env m)"
  by (simp add: sendFollowUp_def quiet_Cons quiet_Nil is_StatsEnd_def split: option.split)

lemma quiet_processAddPlayer: "quiet (processAddPlayer i env)"
  by (simp add: processAddPlayer_def Let_def quiet_Cons quiet_append quiet_Nil quiet_sendFollowUp
        is_StatsEnd_def split: select_result.split sum.split)

text \<open>
  Every path through a handler, the early return after a failed acknowledgement
  included, is the send on the worker pool, the start update, a body that touches
  neither pool nor statistics, the end update and the receive.
\<close>

lemma handleAddPlayerAsync_shape:
  "\<exists>body. handleAddPlayerAsync i env = Acquire # StatsStart # body @ [StatsEnd (elapsed env), Release]
          \<and> quiet body"
proof (cases "ack_err env")
  case None
  then show ?thesis
    by (intro exI [of _ "InteractionRespond
          # LogPrintf (glyph_cycle @ '' Starting processAddPlayer for user interaction'')
          # processAddPlayer i env"])
       (simp add: handleAddPlayerAsync_def returning_def quiet_Cons quiet_processAddPlayer is_StatsEnd_def)
next
  case (Some e)
  then show ?thesis
    by (intro exI [of _ "[InteractionRespond, LogPrintf (''Error deferring response: '' @ e)]"])
       (simp add: handleAddPlayerAsync_def returning_def quiet_Cons quiet_Nil is_StatsEnd_def)
qed

lemma handleListPlayersAsync_shape:
  "\<exists>body. handleListPlayersAsync i env = Acquire # StatsStart # body @ [StatsEnd (elapsed env), Release]
          \<and> quiet body"
proof (cases "ack_err env")
  case None
  then show ?thesis
    by (intro exI [of _ "InteractionRespond # GoServiceCall #
                 (case select_ctx list_timeout (list_call env) (tie_result env) of
                    Received (Inr players) \<Rightarrow> sendFollowUp env (sendPlayersList players)
                  | Received (Inl err) \<Rightarrow>
                      sendFollowUp env (glyph_cross @ '' Failed to fetch players from database: '' @ err)
                        @ [LogPrintf (''Error fetching players from database: '' @ err)]
                  | CtxDone \<Rightarrow> sendFollowUp env (glyph_cross @ '' Request timed out''))"])
       (simp add: handleListPlayersAsync_def returning_def quiet_Cons quiet_append quiet_Nil
          quiet_sendFollowUp is_StatsEnd_def split: select_result.split sum.split)
next
  case (Some e)
  then show ?thesis
    by (intro exI [of _ "[InteractionRespond, LogPrintf (''Error deferring response: '' @ e)]"])
       (simp add: handleListPlayersAsync_def returning_def quiet_Cons quiet_Nil is_StatsEnd_def)
qed

lemma quiet_counts:
  assumes "quiet body"
  shows "count_list body Acquire = 0" "count_list body Release = 0"
        "count_list body StatsStart = 0" "filter is_StatsEnd body = []"
  using assms by (simp_all add: quiet_def count_list_0_iff filter_empty_conv list_ex_iff)

lemma shape_facts:
  assumes "t = Acquire # StatsStart # body @ [StatsEnd d, Release]" "quiet body"
  shows "wf_thread t" "pool_balance t = 0" "stats_balance t = 0" "started t = 0"
proof -
  have c: "count_list t Acquire = 1" "count_list t Release = 1" "count_list t StatsStart = 1"
          "filter is_StatsEnd t = [StatsEnd d]"
    using assms quiet_counts [OF assms(2)] by (simp_all add: is_StatsEnd_def)
  have q: "Release \<notin> set body" "\<not> list_ex is_StatsEnd body"
    using assms(2) by (simp_all add: quiet_def)
  have "t = (Acquire # StatsStart # body) @ [StatsEnd d, Release]
        \<and> Release \<notin> set (Acquire # StatsStart # body)
        \<and> \<not> list_ex is_StatsEnd (Acquire # StatsStart # body)
        \<and> count_list (Acquire # StatsStart # body) Acquire \<le> 1
        \<and> count_list (Acquire # StatsStart # body) StatsStart \<le> 1"
    using assms(1) q quiet_counts [OF assms(2)] by (simp add: is_StatsEnd_def)
  then show "wf_thread t" unfolding wf_thread_def by blast
  show "pool_balance t = 0" "stats_balance t = 0" "started t = 0"
    using c by (simp_all add: pool_balance_def stats_balance_def started_def)
qed

lemma wf_thread_tl:
  assumes "wf_thread (e # rest)"
  shows "wf_thread rest"
proof -
  consider (one) "e # rest = [Release]"
    | (more) pre d where "e # rest = pre @ [StatsEnd d, Release]" "Release \<notin> set pre"
        "\<not> list_ex is_StatsEnd pre" "count_list pre Acquire \<le> 1" "count_list pre StatsStart \<le> 1"
    using assms unfolding wf_thread_def by blast
  then show ?thesis
  proof cases
    case one
    then show ?thesis by (simp add: wf_thread_def)
  next
    case more
    show ?thesis
    proof (cases pre)
      case Nil
      then show ?thesis using more(1) by (simp add: wf_thread_def)
    next
      case (Cons x pre')
      then have "rest = pre' @ [StatsEnd d, Release] \<and> Release \<notin> set pre'
                 \<and> \<not> list_ex is_StatsEnd pre'
                 \<and> count_list pre' Acquire \<le> 1 \<and> count_list pre' StatsStart \<le> 1"
        using more by (auto split: if_splits)
      then show ?thesis unfolding wf_thread_def by blast
    qed
  qed
qed

lemma wf_thread_values:
  assumes "wf_thread t"
  shows "pool_balance t = (if executing t then 1 else 0)"
    and "stats_balance t = (if counted t then 1 else 0)"
    and "started t = (if admitted t then 1 else 0)"
proof -
  consider (none) "t = []" | (one) "t = [Release]"
    | (more) pre d where "t = pre @ [StatsEnd d, Release]" "Release \<notin> set pre"
        "\<not> list_ex is_StatsEnd pre" "count_list pre Acquire \<le> 1" "count_list pre StatsStart \<le> 1"
    using assms unfolding wf_thread_def by blast
  then have "pool_balance t = (if executing t then 1 else 0)
             \<and> stats_balance t = (if counted t then 1 else 0)
             \<and> started t = (if admitted t then 1 else 0)"
  proof cases
    case none
    then show ?thesis
      by (simp add: pool_balance_def stats_balance_def started_def executing_def counted_def admitted_def)
  next
    case one
    then show ?thesis
      by (simp add: pool_balance_def stats_balance_def started_def executing_def counted_def
            admitted_def is_StatsEnd_def)
  next
    case more
    have r: "count_list t Release = 1"
      using more(1,2) by (simp add: count_list_0_iff)
    have f: "filter is_StatsEnd t = [StatsEnd d]"
      using more(1,3) by (simp add: is_StatsEnd_def filter_empty_conv list_ex_iff)
    have a: "count_list t Acquire = count_list pre Acquire"
            "count_list t StatsStart = count_list pre StatsStart"
      using more(1) by simp_all
    have sa: "Acquire \<in> set t \<longleftrightarrow> Acquire \<in> set pre" "StatsStart \<in> set t \<longleftrightarrow> StatsStart \<in> set pre"
      using more(1) by simp_all
    have e: "list_ex is_StatsEnd t" using more(1) by (simp add: is_StatsEnd_def)
    have ne: "t \<noteq> []" using more(1) by simp
    have ca: "count_list pre Acquire = (if Acquire \<in> set pre then 1 else 0)"
      using more(4) count_list_0_iff [of pre Acquire] by (cases "Acquire \<in> set pre") auto
    have cs: "count_list pre StatsStart = (if StatsStart \<in> set pre then 1 else 0)"
      using more(5) count_list_0_iff [of pre StatsStart] by (cases "StatsStart \<in> set pre") auto
    show ?thesis
      using r f a sa e ne ca cs
      by (simp add: pool_balance_def stats_balance_def started_def executing_def counted_def
            admitted_def)
  qed
  then show "pool_balance t = (if executing t then 1 else 0)"
    and "stats_balance t = (if counted t then 1 else 0)"
    and "started t = (if admitted t then 1 else 0)"
    by simp_all
qed

lemma executing_count:
  "(\<forall>t \<in> set gs. wf_thread t) \<Longrightarrow> (\<Sum>t\<leftarrow>gs. pool_balance t) = int (length (filter executing gs))"
  by (induction gs) (simp_all add: wf_thread_values)

lemma counted_count:
  "(\<forall>t \<in> set gs. wf_thread t) \<Longrightarrow> (\<Sum>t\<leftarrow>gs. stats_balance t) = int (length (filter counted gs))"
  by (induction gs) (simp_all add: wf_thread_values)

lemma admitted_count:
  "(\<forall>t \<in> set gs. wf_thread t) \<Longrightarrow> (\<Sum>t\<leftarrow>gs. started t) = int (length (filter admitted gs))"
  by (induction gs) (simp_all add: wf_thread_values)

lemma started_range:
  assumes "\<forall>t \<in> set gs. wf_thread t"
  shows "0 \<le> (\<Sum>t\<leftarrow>gs. started t) \<and> (\<Sum>t\<leftarrow>gs. started t) \<le> int (length gs)"
  using admitted_count [OF assms] length_filter_le [of admitted gs] by simp

lemma event_effects:
  "pool_balance (e # rest) = pool_balance rest + (if e = Release then 1 else 0) - (if e = Acquire then 1 else 0)"
  "stats_balance (e # rest) = stats_balance rest + (if is_StatsEnd e then 1 else 0) - (if e = StatsStart then 1 else 0)"
  "started (e # rest) = started rest - (if e = StatsStart then 1 else 0)"
  by (simp_all add: pool_balance_def stats_balance_def started_def)

lemma invariant_boot: "invariant boot"
  by (simp add: invariant_def boot_def NewCommandHandler_def newCommandStats_def)

lemma invariant_go:
  assumes "invariant p" "t = Acquire # StatsStart # body @ [StatsEnd d, Release]" "quiet body"
  shows "invariant (go t p)"
  using assms(1) shape_facts [OF assms(2,3)] by (simp add: invariant_def go_def)

lemma invariant_HandleInteraction: "invariant p \<Longrightarrow> invariant (HandleInteraction i env p)"
  using handleAddPlayerAsync_shape [of i env] handleListPlayersAsync_shape [of i env]
  by (auto simp add: HandleInteraction_def intro: invariant_go)

lemma step_cases:
  assumes "step k p = Some p'"
  obtains e rest h where
    "k < length (goroutines p)" "goroutines p ! k = e # rest" "fire e (handler p) = Some h"
    "p' = p\<lparr>handler := h, goroutines := (goroutines p)[k := rest],
            sent := sent p @ followups_of [e]\<rparr>"
  using assms by (auto simp add: step_def split: if_splits list.splits option.splits)

lemma invariant_step:
  assumes "invariant p" "step k p = Some p'"
  shows "invariant p'"
proof -
  from assms(2) obtain e rest h where
    k: "k < length (goroutines p)" and g: "goroutines p ! k = e # rest"
    and f: "fire e (handler p) = Some h"
    and p': "p' = p\<lparr>handler := h, goroutines := (goroutines p)[k := rest],
                    sent := sent p @ followups_of [e]\<rparr>"
    by (rule step_cases)
  have wf: "wf_thread (e # rest)" using assms(1) k g by (metis invariant_def nth_mem)
  have wfr: "wf_thread rest" using wf by (rule wf_thread_tl)
  have wfs: "\<forall>t \<in> set ((goroutines p)[k := rest]). wf_thread t"
    using assms(1) wfr by (auto simp add: invariant_def dest: set_update_subset_insert [THEN subsetD])
  have s1: "(\<Sum>t\<leftarrow>(goroutines p)[k := rest]. pool_balance t)
              = (\<Sum>t\<leftarrow>goroutines p. pool_balance t) - pool_balance (e # rest) + pool_balance rest"
    using sum_list_map_update [OF k, of pool_balance rest] g by simp
  have s2: "(\<Sum>t\<leftarrow>(goroutines p)[k := rest]. stats_balance t)
              = (\<Sum>t\<leftarrow>goroutines p. stats_balance t) - stats_balance (e # rest) + stats_balance rest"
    using sum_list_map_update [OF k, of stats_balance rest] g by simp
  have s3: "(\<Sum>t\<leftarrow>(goroutines p)[k := rest]. started t)
              = (\<Sum>t\<leftarrow>goroutines p. started t) - started (e # rest) + started rest"
    using sum_list_map_update [OF k, of started rest] g by simp
  show ?thesis
  proof (cases e)
    case Acquire
    then show ?thesis using assms(1) f p' wfs s1 s2 s3
      by (auto simp add: invariant_def event_effects is_StatsEnd_def split: if_splits)
  next
    case Release
    then show ?thesis using assms(1) f p' wfs s1 s2 s3
      by (auto simp add: invariant_def event_effects is_StatsEnd_def split: if_splits)
  next
    case StatsStart
    then show ?thesis using assms(1) f p' wfs s1 s2 s3
      by (auto simp add: invariant_def event_effects is_StatsEnd_def statsStart_fields)
  next
    case (StatsEnd d)
    then show ?thesis using assms(1) f p' wfs s1 s2 s3
      by (auto simp add: invariant_def event_effects is_StatsEnd_def statsEnd_fields)
  next
    case InteractionRespond
    then show ?thesis using assms(1) f p' wfs s1 s2 s3
      by (auto simp add: invariant_def event_effects is_StatsEnd_def)
  next
    case GoServiceCall
    then show ?thesis using assms(1) f p' wfs s1 s2 s3
      by (auto simp add: invariant_def event_effects is_StatsEnd_def)
  next
    case (FollowUp m)
    then show ?thesis using assms(1) f p' wfs s1 s2 s3
      by (auto simp add: invariant_def event_effects is_StatsEnd_def)
  next
    case (LogPrintf m)
    then show ?thesis using assms(1) f p' wfs s1 s2 s3
      by (auto simp add: invariant_def event_effects is_StatsEnd_def)
  qed
qed

lemma invariant_exec: "invariant p \<Longrightarrow> exec acts p = Some p' \<Longrightarrow> invariant p'"
proof (induction acts arbitrary: p)
  case Nil
  then show ?case by simp
next
  case (Cons a acts)
  show ?case
  proof (cases a)
    case (Arrive i env)
    then have "exec acts (HandleInteraction i env p) = Some p'" using Cons.prems(2) by simp
    then show ?thesis
      using Cons.IH [OF invariant_HandleInteraction [OF Cons.prems(1)]] by simp
  next
    case (Sched k)
    then obtain q where q: "step k p = Some q" "exec acts q = Some p'"
      using Cons.prems(2) by (auto split: option.splits)
    show ?thesis using Cons.IH [OF invariant_step [OF Cons.prems(1) q(1)] q(2)] .
  qed
qed

lemma admissions_HandleInteraction:
  "admissions (HandleInteraction i env p) = admissions p
   \<and> length (goroutines p) \<le> length (goroutines (HandleInteraction i env p))"
proof -
  obtain b1 where b1: "handleAddPlayerAsync i env = Acquire # StatsStart # b1 @ [StatsEnd (elapsed env), Release]"
    "quiet b1" using handleAddPlayerAsync_shape [of i env] by blast
  obtain b2 where b2: "handleListPlayersAsync i env = Acquire # StatsStart # b2 @ [StatsEnd (elapsed env), Release]"
    "quiet b2" using handleListPlayersAsync_shape [of i env] by blast
  show ?thesis
    using shape_facts(4) [OF b1] shape_facts(4) [OF b2]
    by (simp add: HandleInteraction_def go_def admissions_def)
qed

lemma admissions_step:
  assumes "step k p = Some p'"
  shows "admissions p \<le> admissions p' \<and> length (goroutines p') = length (goroutines p)"
proof -
  from assms obtain e rest h where
    k: "k < length (goroutines p)" and g: "goroutines p ! k = e # rest"
    and p': "p' = p\<lparr>handler := h, goroutines := (goroutines p)[k := rest],
                    sent := sent p @ followups_of [e]\<rparr>"
    by (rule step_cases)
  have "(\<Sum>t\<leftarrow>(goroutines p)[k := rest]. started t)
              = (\<Sum>t\<leftarrow>goroutines p. started t) - started (e # rest) + started rest"
    using sum_list_map_update [OF k, of started rest] g by simp
  then show ?thesis using p' by (simp add: admissions_def event_effects)
qed

lemma admissions_exec:
  "exec acts p = Some p' \<Longrightarrow>
     admissions p \<le> admissions p' \<and> length (goroutines p) \<le> length (goroutines p')"
proof (induction acts arbitrary: p)
  case Nil
  then show ?case by simp
next
  case (Cons a acts)
  show ?case
  proof (cases a)
    case (Arrive i env)
    then have "exec acts (HandleInteraction i env p) = Some p'" using Cons.prems by simp
    then show ?thesis
      using Cons.IH [of "HandleInteraction i env p"] admissions_HandleInteraction [of i env p]
      by simp
  next
    case (Sched k)
    then obtain q where q: "step k p = Some q" "exec acts q = Some p'"
      using Cons.prems by (auto split: option.splits)
    show ?thesis using Cons.IH [OF q(2)] admissions_step [OF q(1)] by simp
  qed
qed

lemma total_is_admissions:
  assumes "invariant p" "length (goroutines p) < 2 ^ 63"
  shows "sint (totalCommands (stats (handler p))) = admissions p"
proof -
  have r: "0 \<le> admissions p \<and> admissions p \<le> int (length (goroutines p))"
    using assms(1) started_range [of "goroutines p"] by (simp add: invariant_def admissions_def)
  have "int (length (goroutines p)) < 2 ^ 63" using assms(2) by (simp flip: of_nat_less_iff)
  then have "- (2 ^ 63) \<le> admissions p \<and> admissions p < 2 ^ 63" using r by simp
  then have "sint (word_of_int (admissions p) :: int64) = admissions p"
    by (simp add: sint_word_of_int64)
  then show ?thesis using assms(1) by (simp add: invariant_def admissions_def)
qed

lemma counts_of_invariant:
  assumes "invariant p"
  shows "int (workerPool_len (handler p)) = int (length (filter executing (goroutines p)))"
    and "totalCommands (stats (handler p)) = of_nat (length (filter admitted (goroutines p)))"
    and "activeCommands (stats (handler p)) = of_nat (length (filter counted (goroutines p)))"
    and "admissions p = int (length (filter admitted (goroutines p)))"
proof -
  have wf: "\<forall>t \<in> set (goroutines p). wf_thread t" using assms by (simp add: invariant_def)
  show "int (workerPool_len (handler p)) = int (length (filter executing (goroutines p)))"
    using assms executing_count [OF wf] by (simp add: invariant_def)
  show "totalCommands (stats (handler p)) = of_nat (length (filter admitted (goroutines p)))"
    using assms admitted_count [OF wf] by (simp add: invariant_def)
  show "activeCommands (stats (handler p)) = of_nat (length (filter counted (goroutines p)))"
    using assms counted_count [OF wf] by (simp add: invariant_def)
  show "admissions p = int (length (filter admitted (goroutines p)))"
    using admitted_count [OF wf] by (simp add: admissions_def)
qed

lemma sint_of_nat_int64: "n < 2 ^ 63 \<Longrightarrow> sint (of_nat n :: int64) = int n"
proof -
  assume "n < 2 ^ 63"
  then have "int n < 2 ^ 63" by (simp flip: of_nat_less_iff)
  then have "sint (word_of_int (int n) :: int64) = int n"
    by (intro sint_word_of_int64) auto
  then show ?thesis by simp
qed

text \<open>
  Claim C1. In every state that a run reaches from the start of the process, with
  commands arriving and goroutines scheduled in any order, at most 2 goroutines are
  executing a command, that is, are past their send on the worker pool and not yet
  at their end: their number is the number of elements in the channel, whose
  capacity \<open>NewCommandHandler\<close> sets to 2 for good. Every handler is the send that
  takes the slot, then its start update and its work, which touches the pool no
  more, then its end update and last the receive that frees the slot.
\<close>

theorem worker_pool_bound:
  "exec acts boot = Some p \<Longrightarrow>
     length (filter executing (goroutines p)) \<le> 2
     \<and> length (filter executing (goroutines p)) = workerPool_len (handler p)
     \<and> workerPool_cap (handler p) = 2
     \<and> workerPool_cap NewCommandHandler = 2
     \<and> (\<forall>i env.
          (\<exists>body. handleAddPlayerAsync i env
                    = Acquire # StatsStart # body @ [StatsEnd (elapsed env), Release] \<and> quiet body)
          \<and> (\<exists>body. handleListPlayersAsync i env
                    = Acquire # StatsStart # body @ [StatsEnd (elapsed env), Release] \<and> quiet body))"
proof -
  assume "exec acts boot = Some p"
  then have inv: "invariant p" using invariant_exec [OF invariant_boot] by simp
  have e: "length (filter executing (goroutines p)) = workerPool_len (handler p)"
    using counts_of_invariant(1) [OF inv] by simp
  have b: "workerPool_len (handler p) \<le> 2" "workerPool_cap (handler p) = 2"
    using inv by (simp_all add: invariant_def)
  have c: "workerPool_cap NewCommandHandler = 2" by (simp add: NewCommandHandler_def)
  show ?thesis
    using e b c handleAddPlayerAsync_shape handleListPlayersAsync_shape by simp
qed

theorem worker_pool_bound_witness:
  "exec ex_busy_run boot = Some (the (exec ex_busy_run boot))
   \<and> length (goroutines (the (exec ex_busy_run boot))) = 3
   \<and> GoServiceCall \<in> set (goroutines (the (exec ex_busy_run boot)) ! 0)
   \<and> GoServiceCall \<in> set (goroutines (the (exec ex_busy_run boot)) ! 1)
   \<and> hd (goroutines (the (exec ex_busy_run boot)) ! 2) = Acquire
   \<and> length (filter executing (goroutines (the (exec ex_busy_run boot)))) = 2
   \<and> workerPool_len (handler (the (exec ex_busy_run boot))) = 2
   \<and> exec (ex_busy_run @ [Sched 2]) boot = None"
proof -
  have r: "exec ex_busy_run boot = Some (the (exec ex_busy_run boot))" by code_simp
  have v: "workerPool_len (handler (the (exec ex_busy_run boot))) = 2"
          "length (goroutines (the (exec ex_busy_run boot))) = 3"
          "GoServiceCall \<in> set (goroutines (the (exec ex_busy_run boot)) ! 0)"
          "GoServiceCall \<in> set (goroutines (the (exec ex_busy_run boot)) ! 1)"
          "hd (goroutines (the (exec ex_busy_run boot)) ! 2) = Acquire"
          "exec (ex_busy_run @ [Sched 2]) boot = None"
    by code_simp+
  have "length (filter executing (goroutines (the (exec ex_busy_run boot))))
          = workerPool_len (handler (the (exec ex_busy_run boot)))"
    using worker_pool_bound [OF r] by blast
  then show ?thesis using r v by simp
qed

text \<open>
  Claim C4. On every path through a handler, the early return after a failed
  acknowledgement, the error and the time-out included, the start update is
  followed by exactly one end update. In every state reached from the start of the
  process, the total is the number of goroutines whose start update is done and
  the active count is the number of goroutines between their two updates, both as
  \<open>int64\<close> values and, while fewer than \<open>2^63\<close> commands have arrived, as plain
  numbers. So within that range the total does not decrease along any further
  run, and the active count is 0 once every goroutine has run to its end.
\<close>

theorem stats_paired:
  "(\<exists>body. handleAddPlayerAsync i env
              = Acquire # StatsStart # body @ [StatsEnd (elapsed env), Release] \<and> quiet body)
   \<and> (\<exists>body. handleListPlayersAsync i env
              = Acquire # StatsStart # body @ [StatsEnd (elapsed env), Release] \<and> quiet body)
   \<and> (exec acts boot = Some p \<longrightarrow>
        totalCommands (stats (handler p)) = of_nat (length (filter admitted (goroutines p)))
        \<and> activeCommands (stats (handler p)) = of_nat (length (filter counted (goroutines p)))
        \<and> (length (goroutines p) < 2 ^ 63 \<longrightarrow>
             sint (totalCommands (stats (handler p))) = int (length (filter admitted (goroutines p)))
             \<and> sint (activeCommands (stats (handler p))) = int (length (filter counted (goroutines p))))
        \<and> (\<forall>acts' p'. exec acts' p = Some p' \<longrightarrow> length (goroutines p') < 2 ^ 63 \<longrightarrow>
             sint (totalCommands (stats (handler p))) \<le> sint (totalCommands (stats (handler p'))))
        \<and> ((\<forall>t \<in> set (goroutines p). t = []) \<longrightarrow> activeCommands (stats (handler p)) = 0))"
proof -
  have counts: "totalCommands (stats (handler p)) = of_nat (length (filter admitted (goroutines p)))
        \<and> activeCommands (stats (handler p)) = of_nat (length (filter counted (goroutines p)))"
    if "exec acts boot = Some p"
    using counts_of_invariant(2,3) [OF invariant_exec [OF invariant_boot that]] by simp
  have plain: "sint (totalCommands (stats (handler p))) = int (length (filter admitted (goroutines p)))
        \<and> sint (activeCommands (stats (handler p))) = int (length (filter counted (goroutines p)))"
    if "exec acts boot = Some p" "length (goroutines p) < 2 ^ 63"
  proof -
    have "length (filter admitted (goroutines p)) < 2 ^ 63"
         "length (filter counted (goroutines p)) < 2 ^ 63"
      by (rule le_less_trans [OF length_filter_le that(2)])+
    then show ?thesis using counts [OF that(1)] by (simp add: sint_of_nat_int64)
  qed
  have mono: "sint (totalCommands (stats (handler p))) \<le> sint (totalCommands (stats (handler p')))"
    if "exec acts boot = Some p" "exec acts' p = Some p'" "length (goroutines p') < 2 ^ 63"
    for acts' p'
  proof -
    have inv: "invariant p" using invariant_exec [OF invariant_boot that(1)] .
    have inv': "invariant p'" using invariant_exec [OF inv that(2)] .
    have m: "admissions p \<le> admissions p' \<and> length (goroutines p) \<le> length (goroutines p')"
      using admissions_exec [OF that(2)] .
    then have "length (goroutines p) < 2 ^ 63" using that(3) by simp
    then show ?thesis
      using total_is_admissions [OF inv] total_is_admissions [OF inv' that(3)] m by simp
  qed
  have drain: "activeCommands (stats (handler p)) = 0"
    if "exec acts boot = Some p" "\<forall>t \<in> set (goroutines p). t = []"
  proof -
    have "filter counted gs = []" if "\<forall>t \<in> set gs. t = []" for gs :: "event list list"
      using that by (induction gs) (simp_all add: counted_def)
    then show ?thesis using counts [OF that(1)] that(2) by simp
  qed
  show ?thesis
    using handleAddPlayerAsync_shape [of i env] handleListPlayersAsync_shape [of i env]
          counts plain mono drain
    by blast
qed

theorem stats_paired_witness:
  "exec ex_busy_run boot = Some (the (exec ex_busy_run boot))
   \<and> length (goroutines (the (exec ex_busy_run boot))) < 2 ^ 63
   \<and> length (filter admitted (goroutines (the (exec ex_busy_run boot)))) = 2
   \<and> length (filter counted (goroutines (the (exec ex_busy_run boot)))) = 2
   \<and> sint (totalCommands (stats (handler (the (exec ex_busy_run boot))))) = 2
   \<and> sint (activeCommands (stats (handler (the (exec ex_busy_run boot))))) = 2
   \<and> exec [] boot = Some boot
   \<and> exec ex_drained_run boot = Some (the (exec ex_drained_run boot))
   \<and> goroutines (the (exec ex_drained_run boot)) = [[], []]
   \<and> sint (totalCommands (stats (handler boot)))
       \<le> sint (totalCommands (stats (handler (the (exec ex_drained_run boot)))))
   \<and> totalCommands (stats (handler (the (exec ex_drained_run boot)))) = 2
   \<and> activeCommands (stats (handler (the (exec ex_drained_run boot)))) = 0"
proof -
  have b: "exec ex_busy_run boot = Some (the (exec ex_busy_run boot))" by code_simp
  have b3: "length (goroutines (the (exec ex_busy_run boot))) = 3" by code_simp
  have bl: "length (goroutines (the (exec ex_busy_run boot))) < 2 ^ 63"
           "length (filter admitted (goroutines (the (exec ex_busy_run boot)))) = 2"
           "length (filter counted (goroutines (the (exec ex_busy_run boot)))) = 2"
    by (simp add: b3, code_simp, code_simp)
  have r: "exec ex_drained_run boot = Some (the (exec ex_drained_run boot))" by code_simp
  have g: "goroutines (the (exec ex_drained_run boot)) = [[], []]" by code_simp
  have gl: "length (goroutines (the (exec ex_drained_run boot))) < 2 ^ 63"
    by (simp add: g)
  have e: "exec [] boot = Some boot" by simp
  note busy = stats_paired [of "ex_interaction ''add_player''" ex_env_noack ex_busy_run
                "the (exec ex_busy_run boot)", THEN conjunct2, THEN conjunct2, THEN mp, OF b]
  note drained = stats_paired [of "ex_interaction ''add_player''" ex_env_noack ex_drained_run
                "the (exec ex_drained_run boot)", THEN conjunct2, THEN conjunct2, THEN mp, OF r]
  note start = stats_paired [of "ex_interaction ''add_player''" ex_env_noack "[]" boot,
                THEN conjunct2, THEN conjunct2, THEN mp, OF e]
  have s: "sint (totalCommands (stats (handler (the (exec ex_busy_run boot))))) = 2"
          "sint (activeCommands (stats (handler (the (exec ex_busy_run boot))))) = 2"
    using busy [THEN conjunct2, THEN conjunct2, THEN conjunct1, THEN mp, OF bl(1)] bl(2,3)
    by simp_all
  have m: "sint (totalCommands (stats (handler boot)))
             \<le> sint (totalCommands (stats (handler (the (exec ex_drained_run boot)))))"
    using start [THEN conjunct2, THEN conjunct2, THEN conjunct2, THEN conjunct1, rule_format, OF r gl] .
  have t: "totalCommands (stats (handler (the (exec ex_drained_run boot)))) = 2"
    by (subst drained [THEN conjunct1]) code_simp
  have a: "activeCommands (stats (handler (the (exec ex_drained_run boot)))) = 0"
    using drained [THEN conjunct2, THEN conjunct2, THEN conjunct2, THEN conjunct2] g by simp
  show ?thesis using b bl s e r g m t a by blast
qed

section \<open>Refreshing all players\<close>

text \<open>
  The loop of \<open>UpdateAllPlayers\<close> calls \<open>UpdatePlayer\<close> once per player, whatever the
  earlier calls returned, and each call ends either in a sleep or in an error
  message: the sleeps and the errors together number the players.
\<close>

lemma update_loop_pauses:
  "update_loop r players w errors = (w', errors') \<Longrightarrow>
     length (filter is_Sleep (effects w')) + length errors'
       = length (filter is_Sleep (effects w)) + length errors + length players"
proof (induction players arbitrary: w errors)
  case Nil
  then show ?case by simp
next
  case (Cons player rest)
  obtain c' res where u: "UpdatePlayer r (store w) (clock w) player = (c', res)"
    by (cases "UpdatePlayer r (store w) (clock w) player")
  show ?case
  proof (cases res)
    case None
    then show ?thesis using Cons.prems u Cons.IH
      by (simp add: Let_def is_Sleep_def)
  next
    case (Some err)
    then show ?thesis using Cons.prems u Cons.IH
      by (simp add: Let_def is_Sleep_def)
  qed
qed

lemma UpdateAllPlayers_result:
  assumes "FindAll (store w) = Inr players" "update_loop r players w [] = (w', errors)"
  shows "UpdateAllPlayers r w =
           (w', if errors = [] then None
                else Some (''some players failed to update: '' @ fmt_v_strings errors))"
  using assms by (simp add: UpdateAllPlayers_def)

text \<open>
  Claim C7, on three players of which the second fails at the Riot API: the first
  and the third are updated in the store, the aggregate error names the second
  alone, and no sleep separates the failed update of the second from the update of
  the third.
\<close>

theorem UpdateAllPlayers_second_fails:
  "effects (fst (UpdateAllPlayers ex_riot ex_world)) =
     [CallUpdatePlayer ''puuid-1'', Sleep second,
      CallUpdatePlayer ''puuid-2'',
      Println ''Failed to update player Bob#EUW: failed to update player rank: failed to get summoner: API request failed with status 500: '',
      CallUpdatePlayer ''puuid-3'', Sleep second]
   \<and> snd (UpdateAllPlayers ex_riot ex_world) =
       Some ''some players failed to update: [Failed to update player Bob#EUW: failed to update player rank: failed to get summoner: API request failed with status 500: ]''
   \<and> map (\<lambda>p. (GameName p, Rank p, LeaguePoints p, SummonerLevel p))
         (docs (store (fst (UpdateAllPlayers ex_riot ex_world)))) =
       [(''Ann'', ''I'', 70, 31), (''Bob'', ''II'', 45, 30), (''Cid'', ''I'', 70, 31)]"
  by code_simp

end
